theory Spec2Isabelle
  imports Complex_Main
begin

section \<open>Single-epoch pseudorange positioning (observation.cpp)\<close>

text \<open>
  The C++ \<open>double\<close> is modelled by \<^typ>\<open>real\<close>: rounding, infinities and NaN are
  not represented, \<open>fabs\<close> is \<^const>\<open>abs\<close>, \<open>asin\<close> is \<^const>\<open>arcsin\<close> and \<open>pow(x, 2)\<close>
  is \<open>x\<^sup>2\<close>. A null \<open>shared_ptr\<close> is \<^const>\<open>None\<close>; the \<open>std::out_of_range\<close> that
  \<open>vector::at\<close> and \<open>string::substr\<close> throw is the left summand of the result.
\<close>

subsection \<open>Data\<close>

datatype exn = out_of_range

type_synonym Vector3d = "real \<times> real \<times> real"

record DateTime =
  year :: int
  month :: int
  day :: int
  hour :: int
  minute :: int
  second :: int

text \<open>The fields of a navigation record that the solver reads; the orbital elements
  live in the extension of the record.\<close>

record NavigationRecord =
  OmegaDOT :: real
  a0 :: real
  a1 :: real
  a2 :: real
  Toc :: DateTime

record ObservationRecord =
  receiverTime :: DateTime
  statusFlag :: int
  sumSat :: int
  listSatPRN :: "string list"
  pseudorange_C1C :: "real list"
  pseudorange_C2P :: "real list"
  phase_L1C :: "real list"
  phase_L2P :: "real list"

text \<open>
  What \<open>observation.h\<close> and the libraries supply, taken as parameters: the constants
  \<open>Reference::c\<close>, \<open>PI\<close> and \<open>EPS\<close>, the class \<open>Coordinates\<close> (type \<open>'c\<close>) with its
  constructor from a vector, \<open>toXYZ\<close> and \<open>toNEU\<close>, \<open>GpsWeekSecond(t)._second\<close>,
  \<open>NavigationRecord::computeSatellitePosition\<close> (it is passed the address of \<open>satTimeF\<close>
  and is taken to read the time only), Eigen's \<open>inverse()\<close> (coefficient \<open>(i, j)\<close> of the
  inverse of a matrix; nothing is assumed of it, as Eigen promises nothing for a singular
  matrix) and the contents of freshly allocated, not yet written Eigen storage.
  The coefficients are real numbers, as every \<open>double\<close> is here: rounding is not
  represented, and neither are the infinities and NaN that \<open>inverse()\<close> yields when the
  elimination meets a pivot that is exactly zero.
\<close>

record ('c, 'o) env =
  Reference_c :: real
  PI :: real
  EPS :: real
  Coordinates :: "Vector3d \<Rightarrow> 'c"
  toXYZ :: "'c \<Rightarrow> Vector3d"
  toNEU :: "'c \<Rightarrow> 'c \<Rightarrow> Vector3d"
  GpsWeekSecond_second :: "DateTime \<Rightarrow> real"
  computeSatellitePosition :: "'o NavigationRecord_scheme \<Rightarrow> real \<Rightarrow> 'c"
  inverse_Eigen :: "real list list \<Rightarrow> nat \<Rightarrow> nat \<Rightarrow> real"
  uninitialized :: "nat \<Rightarrow> nat \<Rightarrow> real"

text \<open>\<open>NavigationData::findCloseRecord\<close>, the only use made of the navigation data.\<close>

type_synonym 'o NavigationData = "DateTime \<Rightarrow> string \<Rightarrow> 'o NavigationRecord_scheme option"

subsection \<open>Constants of \<open>computeReceiverPosition\<close>\<close>

definition ITER_TOL :: real where
  "ITER_TOL = 1 / 10 ^ 8"

definition BLUNDER_PICKER :: real where
  "BLUNDER_PICKER = 500000"

definition CUTOFF_ELEVATION :: "('c, 'o) env \<Rightarrow> real" where
  "CUTOFF_ELEVATION e = 10 / 180 * PI e"

subsection \<open>Vectors and matrices\<close>

fun vminus :: "Vector3d \<Rightarrow> Vector3d \<Rightarrow> Vector3d" where
  "vminus (x1, y1, z1) (x2, y2, z2) = (x1 - x2, y1 - y2, z1 - z2)"

fun vnorm :: "Vector3d \<Rightarrow> real" where
  "vnorm (x, y, z) = sqrt (x\<^sup>2 + y\<^sup>2 + z\<^sup>2)"

fun vX :: "Vector3d \<Rightarrow> real" where "vX (x, y, z) = x"
fun vY :: "Vector3d \<Rightarrow> real" where "vY (x, y, z) = y"
fun vZ :: "Vector3d \<Rightarrow> real" where "vZ (x, y, z) = z"

text \<open>\<open>rotationCorrection << cos, sin, 0, -sin, cos, 0, 0, 0, 1\<close> applied to a vector.\<close>

fun rotationCorrection :: "real \<Rightarrow> Vector3d \<Rightarrow> Vector3d" where
  "rotationCorrection angle (x, y, z) =
     (cos angle * x + sin angle * y, - sin angle * x + cos angle * y, z)"

text \<open>\<open>vector::at\<close>: a checked read.\<close>

definition vector_at :: "'a list \<Rightarrow> nat \<Rightarrow> exn + 'a" where
  "vector_at xs i = (if i < length xs then Inr (xs ! i) else Inl out_of_range)"

subsection \<open>The inner light-time iteration (lines 117 to 132)\<close>

function lightTime ::
  "('c, 'o) env \<Rightarrow> 'o NavigationRecord_scheme \<Rightarrow> real \<Rightarrow> real \<Rightarrow> real \<Rightarrow> Vector3d \<Rightarrow>
   nat \<Rightarrow> real \<Rightarrow> real \<Rightarrow> (Vector3d \<times> real) option" where
  "lightTime e closeRecord angle recTimeF recClockError recCoord itrTime satTimeF estimatedTimeDelay =
     (if itrTime \<ge> 100 then None
      else
        let satTimePrev = satTimeF;
            satTimeF' = recTimeF - recClockError - estimatedTimeDelay;
            satCoord = rotationCorrection angle
                         (toXYZ e (computeSatellitePosition e closeRecord satTimeF'))
        in if \<bar>satTimeF' - satTimePrev\<bar> \<le> ITER_TOL then Some (satCoord, satTimeF')
           else lightTime e closeRecord angle recTimeF recClockError recCoord (itrTime + 1) satTimeF'
                  (vnorm (vminus satCoord recCoord) / Reference_c e))"
  by pat_completeness auto
termination
  by (relation "measure (\<lambda>(e, closeRecord, angle, recTimeF, recClockError, recCoord, itrTime, satTimeF, d). 100 - itrTime)")
     auto

declare lightTime.simps [simp del]

subsection \<open>One satellite of one outer pass (lines 98 to 160)\<close>

datatype satOutcome =
  Disposed
  | Accepted "real list" real real
  | ReturnNull
  | Throws exn

definition processSat ::
  "('c, 'o) env \<Rightarrow> ObservationRecord \<Rightarrow> 'o NavigationData \<Rightarrow> 'c \<Rightarrow> Vector3d \<Rightarrow> real \<Rightarrow> nat \<Rightarrow> satOutcome" where
  "processSat e r navigationData approxRecCoord recCoord recClockError satIndex =
     (case vector_at (pseudorange_C1C r) satIndex of
        Inl x \<Rightarrow> Throws x
      | Inr p \<Rightarrow>
          if p < EPS e then Disposed
          else
            (case vector_at (listSatPRN r) satIndex of
               Inl x \<Rightarrow> Throws x
             | Inr prn \<Rightarrow>
                 (case navigationData (receiverTime r) prn of
                    None \<Rightarrow> ReturnNull
                  | Some closeRecord \<Rightarrow>
                      let recTimeF = GpsWeekSecond_second e (receiverTime r);
                          estimatedTimeDelay = 0.075;
                          angle = OmegaDOT closeRecord * (p / Reference_c e)
                      in (case lightTime e closeRecord angle recTimeF recClockError recCoord 0 0 estimatedTimeDelay of
                            None \<Rightarrow> ReturnNull
                          | Some (satCoord, satTimeF) \<Rightarrow>
                              let satCoordNEU = toNEU e (Coordinates e satCoord) approxRecCoord;
                                  satElevation = arcsin (vZ satCoordNEU / vnorm satCoordNEU)
                              in if satElevation \<le> CUTOFF_ELEVATION e then Disposed
                                 else
                                   let rho = vnorm (vminus recCoord satCoord)
                                   in if \<bar>rho - p\<bar> > BLUNDER_PICKER then Disposed
                                      else
                                        let aX = (vX recCoord - vX satCoord) / rho;
                                            aY = (vY recCoord - vY satCoord) / rho;
                                            aZ = (vZ recCoord - vZ satCoord) / rho;
                                            closeTocF = GpsWeekSecond_second e (Toc closeRecord);
                                            satClockError = a0 closeRecord + a1 closeRecord * (satTimeF - closeTocF)
                                                            + a2 closeRecord * (satTimeF - closeTocF)\<^sup>2
                                        in Accepted [aX, aY, aZ, 1]
                                             (p - rho + Reference_c e * satClockError)
                                             ((sin satElevation)\<^sup>2)))))"

subsection \<open>The satellite loop of one outer pass (lines 89 to 161)\<close>

record passState =
  designMat :: "real list list"
  observableVec :: "real list"
  weightVec :: "real list"
  countDisposed :: nat

text \<open>\<open>MatrixXd designMat(n, 4); VectorXd observableVec(n); VectorXd weightVec(n);
  int countDisposed = 0;\<close> Eigen does not initialise the coefficients.\<close>

definition initialState :: "('c, 'o) env \<Rightarrow> nat \<Rightarrow> passState" where
  "initialState e n =
     \<lparr>designMat = map (\<lambda>i. map (\<lambda>j. uninitialized e i j) [0..<4]) [0..<n],
      observableVec = map (\<lambda>i. uninitialized e i 4) [0..<n],
      weightVec = map (\<lambda>i. uninitialized e i 5) [0..<n],
      countDisposed = 0\<rparr>"

text \<open>The row index \<open>satIndex - countDisposed\<close> is an \<open>int\<close> in the source; it is never
  negative there (lemma \<open>satLoop_passInv\<close> below: \<open>countDisposed\<close> plus the number of accepted
  satellites is \<open>satIndex\<close>), so the truncating subtraction of
  \<^typ>\<open>nat\<close> computes the same index.\<close>

function satLoop ::
  "('c, 'o) env \<Rightarrow> ObservationRecord \<Rightarrow> 'o NavigationData \<Rightarrow> 'c \<Rightarrow> Vector3d \<Rightarrow> real \<Rightarrow>
   nat \<Rightarrow> passState \<Rightarrow> exn + passState option" where
  "satLoop e r navigationData approxRecCoord recCoord recClockError satIndex s =
     (if satIndex < length (listSatPRN r) then
        (case processSat e r navigationData approxRecCoord recCoord recClockError satIndex of
           Throws x \<Rightarrow> Inl x
         | ReturnNull \<Rightarrow> Inr None
         | Disposed \<Rightarrow>
             satLoop e r navigationData approxRecCoord recCoord recClockError (satIndex + 1)
               (s\<lparr>countDisposed := countDisposed s + 1\<rparr>)
         | Accepted row ob wt \<Rightarrow>
             satLoop e r navigationData approxRecCoord recCoord recClockError (satIndex + 1)
               (s\<lparr>designMat := (designMat s)[satIndex - countDisposed s := row],
                  observableVec := (observableVec s)[satIndex - countDisposed s := ob],
                  weightVec := (weightVec s)[satIndex - countDisposed s := wt]\<rparr>))
      else Inr (Some s))"
  by pat_completeness auto
termination
  by (relation "measure (\<lambda>(e, r, navigationData, approxRecCoord, recCoord, recClockError, satIndex, s).
                   length (listSatPRN r) - satIndex)")
     auto

declare satLoop.simps [simp del]

subsection \<open>Compaction and the check for enough observations (lines 163 to 175)\<close>

definition compact :: "nat \<Rightarrow> passState \<Rightarrow> passState option" where
  "compact n s =
     (if countDisposed s > 0 then
        (if n - countDisposed s < 4 then None
         else Some (s\<lparr>designMat := take (length (designMat s) - countDisposed s) (designMat s),
                      observableVec := take (length (observableVec s) - countDisposed s) (observableVec s),
                      weightVec := take (length (weightVec s) - countDisposed s) (weightVec s)\<rparr>))
      else Some s)"

definition assemble ::
  "('c, 'o) env \<Rightarrow> ObservationRecord \<Rightarrow> 'o NavigationData \<Rightarrow> 'c \<Rightarrow> Vector3d \<Rightarrow> real \<Rightarrow>
   exn + passState option" where
  "assemble e r navigationData approxRecCoord recCoord recClockError =
     (case satLoop e r navigationData approxRecCoord recCoord recClockError 0
             (initialState e (length (listSatPRN r))) of
        Inl x \<Rightarrow> Inl x
      | Inr None \<Rightarrow> Inr None
      | Inr (Some s) \<Rightarrow> Inr (compact (length (listSatPRN r)) s))"

subsection \<open>The weighted normal equations (lines 177 and 178)\<close>

definition dot :: "real list \<Rightarrow> real list \<Rightarrow> real" where
  "dot xs ys = sum_list (map2 (*) xs ys)"

text \<open>Matrices are lists of rows; the number of columns is given where a matrix may
  have no row.\<close>

definition transposeN :: "nat \<Rightarrow> real list list \<Rightarrow> real list list" where
  "transposeN k A = map (\<lambda>j. map (\<lambda>row. row ! j) A) [0..<k]"

definition mmul :: "nat \<Rightarrow> real list list \<Rightarrow> real list list \<Rightarrow> real list list" where
  "mmul k A B = map (\<lambda>row. map (dot row) (transposeN k B)) A"

definition matvec :: "real list list \<Rightarrow> real list \<Rightarrow> real list" where
  "matvec A v = map (\<lambda>row. dot row v) A"

definition asDiagonal :: "real list \<Rightarrow> real list list" where
  "asDiagonal w = map (\<lambda>i. map (\<lambda>j. if i = j then w ! i else 0) [0..<length w]) [0..<length w]"

text \<open>\<open>(designMat.transpose() * weightMat * designMat).inverse() * designMat.transpose()
  * weightMat * observableVec\<close>, the products taken from left to right.\<close>

definition solveNormal :: "('c, 'o) env \<Rightarrow> real list list \<Rightarrow> real list \<Rightarrow> real list \<Rightarrow> real list" where
  "solveNormal e A w b =
     (let n = length w;
          weightMat = asDiagonal w;
          At = transposeN 4 A;
          N = mmul 4 (mmul n At weightMat) A;
          Ninv = map (\<lambda>i. map (\<lambda>j. inverse_Eigen e N i j) [0..<4]) [0..<4]
      in matvec (mmul n (mmul n Ninv At) weightMat) b)"

subsection \<open>One outer pass and the outer loop (lines 84 to 189)\<close>

text \<open>The body of the outer loop up to the update of \<open>recCoord\<close> and \<open>recClockError\<close>:
  the new estimate, the new clock error and the solution, or the early return.\<close>

definition outerPass ::
  "('c, 'o) env \<Rightarrow> ObservationRecord \<Rightarrow> 'o NavigationData \<Rightarrow> 'c \<Rightarrow> Vector3d \<Rightarrow> real \<Rightarrow>
   exn + (Vector3d \<times> real \<times> real list) option" where
  "outerPass e r navigationData approxRecCoord recCoord recClockError =
     (case assemble e r navigationData approxRecCoord recCoord recClockError of
        Inl x \<Rightarrow> Inl x
      | Inr None \<Rightarrow> Inr None
      | Inr (Some s) \<Rightarrow>
          let solution = solveNormal e (designMat s) (weightVec s) (observableVec s);
              recCoord' = (vX recCoord + solution ! 0, vY recCoord + solution ! 1,
                           vZ recCoord + solution ! 2);
              recClockError' = solution ! 3 / Reference_c e
          in Inr (Some (recCoord', recClockError', solution)))"

function adjustLoop ::
  "('c, 'o) env \<Rightarrow> ObservationRecord \<Rightarrow> 'o NavigationData \<Rightarrow> 'c \<Rightarrow> nat \<Rightarrow> Vector3d \<Rightarrow> real \<Rightarrow>
   exn + 'c option" where
  "adjustLoop e r navigationData approxRecCoord itrAdjust recCoord recClockError =
     (if itrAdjust \<ge> 100 then Inr None
      else
        (case outerPass e r navigationData approxRecCoord recCoord recClockError of
           Inl x \<Rightarrow> Inl x
         | Inr None \<Rightarrow> Inr None
         | Inr (Some (recCoord', recClockError', solution)) \<Rightarrow>
             if vnorm (solution ! 0, solution ! 1, solution ! 2) < ITER_TOL
             then Inr (Some (Coordinates e recCoord'))
             else adjustLoop e r navigationData approxRecCoord (itrAdjust + 1) recCoord' recClockError'))"
  by pat_completeness auto
termination
  by (relation "measure (\<lambda>(e, r, navigationData, approxRecCoord, itrAdjust, recCoord, recClockError).
                   100 - itrAdjust)")
     auto

declare adjustLoop.simps [simp del]

definition computeReceiverPosition ::
  "('c, 'o) env \<Rightarrow> ObservationRecord \<Rightarrow> 'o NavigationData \<Rightarrow> 'c \<Rightarrow> exn + 'c option" where
  "computeReceiverPosition e r navigationData approxRecCoord =
     adjustLoop e r navigationData approxRecCoord 0 (toXYZ e approxRecCoord) 0"

section \<open>Reading an epoch record (the constructor of ObservationData, lines 40 to 63)\<close>

text \<open>
  The input stream: the lines not yet read, whether the last line of the file ends with a
  newline, and whether the stream is still good. \<open>getline\<close> on a stream that is not good
  leaves the line unchanged; at the end of the input it clears the line and the stream
  fails; reading a last line without newline sets the end-of-file bit.
\<close>

record ifstream =
  pending :: "string list"
  finalNewline :: bool
  good :: bool

definition getline :: "ifstream \<Rightarrow> string \<Rightarrow> ifstream \<times> string" where
  "getline file line =
     (if \<not> good file then (file, line)
      else
        (case pending file of
           [] \<Rightarrow> (file\<lparr>good := False\<rparr>, [])
         | l # ls \<Rightarrow>
             if ls = [] \<and> \<not> finalNewline file then (file\<lparr>pending := [], good := False\<rparr>, l)
             else (file\<lparr>pending := ls\<rparr>, l)))"

text \<open>\<open>string::substr\<close> throws when the position is beyond the end of the string.\<close>

definition substr :: "string \<Rightarrow> nat \<Rightarrow> nat \<Rightarrow> exn + string" where
  "substr s pos n = (if pos > length s then Inl out_of_range else Inr (take n (drop pos s)))"

text \<open>The loop over the declared satellites; \<open>atof\<close> is the C library function.\<close>

function readSatellites ::
  "(string \<Rightarrow> real) \<Rightarrow> int \<Rightarrow> ifstream \<Rightarrow> string \<Rightarrow> ObservationRecord \<Rightarrow>
   exn + (ifstream \<times> string \<times> ObservationRecord)" where
  "readSatellites atof i file line record =
     (if i < sumSat record then
        (case getline file line of
           (file', line') \<Rightarrow>
             (case substr line' 0 1 of
                Inl x \<Rightarrow> Inl x
              | Inr sys \<Rightarrow>
                  if sys \<noteq> ''G'' then readSatellites atof (i + 1) file' line' record
                  else
                    (case substr line' 0 3 of Inl x \<Rightarrow> Inl x | Inr prn \<Rightarrow>
                     (case substr line' 3 14 of Inl x \<Rightarrow> Inl x | Inr c1c \<Rightarrow>
                      (case substr line' 19 14 of Inl x \<Rightarrow> Inl x | Inr c2p \<Rightarrow>
                       (case substr line' 51 14 of Inl x \<Rightarrow> Inl x | Inr l1c \<Rightarrow>
                        (case substr line' 67 14 of Inl x \<Rightarrow> Inl x | Inr l2p \<Rightarrow>
                           readSatellites atof (i + 1) file' line'
                             (record\<lparr>listSatPRN := listSatPRN record @ [prn],
                                     pseudorange_C1C := pseudorange_C1C record @ [atof c1c],
                                     pseudorange_C2P := pseudorange_C2P record @ [atof c2p],
                                     phase_L1C := phase_L1C record @ [atof l1c],
                                     phase_L2P := phase_L2P record @ [atof l2p]\<rparr>))))))))
      else Inr (file, line, record))"
  by pat_completeness auto
termination
  by (relation "measure (\<lambda>(atof, i, file, line, record). nat (sumSat record - i))") auto

declare readSatellites.simps [simp del]

text \<open>The epoch header line and the satellite lines after it; \<open>atoi\<close> is the C library function.\<close>

definition readRecord ::
  "(string \<Rightarrow> int) \<Rightarrow> (string \<Rightarrow> real) \<Rightarrow> ifstream \<Rightarrow> string \<Rightarrow>
   exn + (ifstream \<times> string \<times> ObservationRecord)" where
  "readRecord atoi atof file line =
     (case substr line 1 5 of Inl x \<Rightarrow> Inl x | Inr yearS \<Rightarrow>
      (case substr line 6 3 of Inl x \<Rightarrow> Inl x | Inr monthS \<Rightarrow>
       (case substr line 9 3 of Inl x \<Rightarrow> Inl x | Inr dayS \<Rightarrow>
        (case substr line 12 3 of Inl x \<Rightarrow> Inl x | Inr hourS \<Rightarrow>
         (case substr line 15 3 of Inl x \<Rightarrow> Inl x | Inr minuteS \<Rightarrow>
          (case substr line 18 11 of Inl x \<Rightarrow> Inl x | Inr secondS \<Rightarrow>
           (case substr line 29 3 of Inl x \<Rightarrow> Inl x | Inr flagS \<Rightarrow>
            (case substr line 32 3 of Inl x \<Rightarrow> Inl x | Inr sumS \<Rightarrow>
               readSatellites atof 0 file line
                 \<lparr>receiverTime = \<lparr>year = atoi yearS, month = atoi monthS, day = atoi dayS,
                                   hour = atoi hourS, minute = atoi minuteS, second = atoi secondS\<rparr>,
                  statusFlag = atoi flagS, sumSat = atoi sumS,
                  listSatPRN = [], pseudorange_C1C = [], pseudorange_C2P = [],
                  phase_L1C = [], phase_L2P = []\<rparr>))))))))"

text \<open>The invariant of an epoch record.\<close>

definition parallel :: "ObservationRecord \<Rightarrow> bool" where
  "parallel record \<longleftrightarrow>
     length (pseudorange_C1C record) = length (listSatPRN record) \<and>
     length (pseudorange_C2P record) = length (listSatPRN record) \<and>
     length (phase_L1C record) = length (listSatPRN record) \<and>
     length (phase_L2P record) = length (listSatPRN record)"

definition onlyGPS :: "ObservationRecord \<Rightarrow> bool" where
  "onlyGPS record \<longleftrightarrow> list_all (\<lambda>prn. take 1 prn = ''G'') (listSatPRN record)"

section \<open>Notions used in the statements\<close>

subsection \<open>The accepted satellites of a pass\<close>

text \<open>The outcomes of the satellites before index \<open>i\<close> that were accepted, in order, and the
  invariant of the satellite loop.\<close>

fun isAccepted :: "satOutcome \<Rightarrow> bool" where
  "isAccepted (Accepted row ob wt) = True"
| "isAccepted _ = False"

fun rowOf :: "satOutcome \<Rightarrow> real list" where
  "rowOf (Accepted row ob wt) = row"
| "rowOf _ = []"

fun obOf :: "satOutcome \<Rightarrow> real" where
  "obOf (Accepted row ob wt) = ob"
| "obOf _ = 0"

fun wtOf :: "satOutcome \<Rightarrow> real" where
  "wtOf (Accepted row ob wt) = wt"
| "wtOf _ = 0"

definition acceptedUpTo ::
  "('c, 'o) env \<Rightarrow> ObservationRecord \<Rightarrow> 'o NavigationData \<Rightarrow> 'c \<Rightarrow> Vector3d \<Rightarrow> real \<Rightarrow> nat \<Rightarrow> satOutcome list" where
  "acceptedUpTo e r navigationData approxRecCoord recCoord recClockError i =
     filter isAccepted (map (processSat e r navigationData approxRecCoord recCoord recClockError) [0..<i])"

definition passInv ::
  "('c, 'o) env \<Rightarrow> ObservationRecord \<Rightarrow> 'o NavigationData \<Rightarrow> 'c \<Rightarrow> Vector3d \<Rightarrow> real \<Rightarrow> nat \<Rightarrow> passState \<Rightarrow> bool" where
  "passInv e r navigationData approxRecCoord recCoord recClockError i s =
     (let acc = acceptedUpTo e r navigationData approxRecCoord recCoord recClockError i;
          n = length (listSatPRN r)
      in i \<le> n \<and> countDisposed s + length acc = i \<and>
         length (designMat s) = n \<and> length (observableVec s) = n \<and> length (weightVec s) = n \<and>
         take (length acc) (designMat s) = map rowOf acc \<and>
         take (length acc) (observableVec s) = map obOf acc \<and>
         take (length acc) (weightVec s) = map wtOf acc)"


subsection \<open>The iterations as sequences\<close>

text \<open>
  The inner iteration written as the sequence of its values: the delay estimate before
  iteration \<open>k\<close> (the seed 0.075 before the first), the transmission time and the rotated
  satellite position computed in iteration \<open>k\<close>, the transmission time it is compared with
  (\<open>satTimePrev\<close>, 0 in the first iteration) and the exit test of iteration \<open>k\<close>.
\<close>

primrec lightTimeDelay ::
  "('c, 'o) env \<Rightarrow> 'o NavigationRecord_scheme \<Rightarrow> real \<Rightarrow> real \<Rightarrow> real \<Rightarrow> Vector3d \<Rightarrow> nat \<Rightarrow> real" where
  "lightTimeDelay e closeRecord angle recTimeF recClockError recCoord 0 = 0.075"
| "lightTimeDelay e closeRecord angle recTimeF recClockError recCoord (Suc k) =
     vnorm (vminus
       (rotationCorrection angle (toXYZ e (computeSatellitePosition e closeRecord
          (recTimeF - recClockError - lightTimeDelay e closeRecord angle recTimeF recClockError recCoord k))))
       recCoord) / Reference_c e"

definition transmissionTime ::
  "('c, 'o) env \<Rightarrow> 'o NavigationRecord_scheme \<Rightarrow> real \<Rightarrow> real \<Rightarrow> real \<Rightarrow> Vector3d \<Rightarrow> nat \<Rightarrow> real" where
  "transmissionTime e closeRecord angle recTimeF recClockError recCoord k =
     recTimeF - recClockError - lightTimeDelay e closeRecord angle recTimeF recClockError recCoord k"

definition satelliteAt ::
  "('c, 'o) env \<Rightarrow> 'o NavigationRecord_scheme \<Rightarrow> real \<Rightarrow> real \<Rightarrow> real \<Rightarrow> Vector3d \<Rightarrow> nat \<Rightarrow> Vector3d" where
  "satelliteAt e closeRecord angle recTimeF recClockError recCoord k =
     rotationCorrection angle (toXYZ e (computeSatellitePosition e closeRecord
        (transmissionTime e closeRecord angle recTimeF recClockError recCoord k)))"

definition previousTime ::
  "('c, 'o) env \<Rightarrow> 'o NavigationRecord_scheme \<Rightarrow> real \<Rightarrow> real \<Rightarrow> real \<Rightarrow> Vector3d \<Rightarrow> nat \<Rightarrow> real" where
  "previousTime e closeRecord angle recTimeF recClockError recCoord k =
     (case k of 0 \<Rightarrow> 0
      | Suc j \<Rightarrow> transmissionTime e closeRecord angle recTimeF recClockError recCoord j)"

definition timeSettled ::
  "('c, 'o) env \<Rightarrow> 'o NavigationRecord_scheme \<Rightarrow> real \<Rightarrow> real \<Rightarrow> real \<Rightarrow> Vector3d \<Rightarrow> nat \<Rightarrow> bool" where
  "timeSettled e closeRecord angle recTimeF recClockError recCoord k =
     (\<bar>transmissionTime e closeRecord angle recTimeF recClockError recCoord k
       - previousTime e closeRecord angle recTimeF recClockError recCoord k\<bar> \<le> ITER_TOL)"


text \<open>
  The outer iteration as a sequence: the estimate and clock error with which pass \<open>k\<close> starts,
  defined when each earlier pass solved its system without meeting the tolerance.
\<close>

primrec outerIterate ::
  "('c, 'o) env \<Rightarrow> ObservationRecord \<Rightarrow> 'o NavigationData \<Rightarrow> 'c \<Rightarrow> nat \<Rightarrow> (Vector3d \<times> real) option" where
  "outerIterate e r navigationData approxRecCoord 0 = Some (toXYZ e approxRecCoord, 0)"
| "outerIterate e r navigationData approxRecCoord (Suc k) =
     (case outerIterate e r navigationData approxRecCoord k of
        None \<Rightarrow> None
      | Some (recCoord, recClockError) \<Rightarrow>
          (case outerPass e r navigationData approxRecCoord recCoord recClockError of
             Inr (Some (recCoord', recClockError', solution)) \<Rightarrow>
               if vnorm (solution ! 0, solution ! 1, solution ! 2) < ITER_TOL then None
               else Some (recCoord', recClockError')
           | _ \<Rightarrow> None))"



section \<open>Example data\<close>

text \<open>
  A receiver at the north pole, where the up axis of the local frame is the Z axis and the
  conversion to the local frame is a translation; satellites that do not move, each
  21000 km from the receiver; \<open>inverse()\<close> answers with the inverse of the normal matrix of the
  first pass of the example epoch (lemma \<open>ex_inverse_table\<close>). Seven satellites: G03 has no
  pseudorange and no navigation record, G06 has a pseudorange 1000 km too long, G07 stands
  on the horizon.
\<close>

definition exEnv :: "(Vector3d, real \<Rightarrow> Vector3d) env" where
  "exEnv = \<lparr>Reference_c = 299792458, PI = pi, EPS = 1 / 10 ^ 10,
         Coordinates = (\<lambda>v. v), toXYZ = (\<lambda>v. v),
         toNEU = (\<lambda>s ref. vminus s ref),
         GpsWeekSecond_second = (\<lambda>t. of_int (hour t * 3600 + minute t * 60 + second t)),
         computeSatellitePosition = (\<lambda>nav t. NavigationRecord.more nav t),
         inverse_Eigen = (\<lambda>N i j. [[63 / 8, - 9, - (27 / 8), - (27 / 8)],
                                   [- 9, 117 / 8, 27 / 4, 27 / 4],
                                   [- (27 / 8), 27 / 4, 153 / 8, 129 / 8],
                                   [- (27 / 8), 27 / 4, 129 / 8, 113 / 8]] ! i ! j),
         uninitialized = (\<lambda>i j. 0)\<rparr>"

definition exToc :: DateTime where
  "exToc = \<lparr>year = 2020, month = 1, day = 5, hour = 0, minute = 0, second = 0\<rparr>"

definition exNav :: "real \<Rightarrow> Vector3d \<Rightarrow> (real \<Rightarrow> Vector3d) NavigationRecord_scheme" where
  "exNav clockBias position =
     \<lparr>OmegaDOT = 0, a0 = clockBias, a1 = 0, a2 = 0, Toc = exToc, \<dots> = (\<lambda>t. position)\<rparr>"

definition exNavigation :: "(real \<Rightarrow> Vector3d) NavigationData" where
  "exNavigation t prn =
     (if prn = ''G01'' then Some (exNav (1 / 10 ^ 6) (7000000, 14000000, 20356752))
      else if prn = ''G02'' then Some (exNav 0 (14000000, 7000000, 20356752))
      else if prn = ''G04'' then Some (exNav 0 (- 14000000, - 7000000, 20356752))
      else if prn = ''G05'' then Some (exNav 0 (0, 0, 27356752))
      else if prn = ''G06'' then Some (exNav 0 (0, 0, 27356752))
      else if prn = ''G07'' then Some (exNav 0 (21000000, 0, 6356752))
      else None)"

definition exEpoch :: ObservationRecord where
  "exEpoch =
     \<lparr>receiverTime = \<lparr>year = 2020, month = 1, day = 5, hour = 1, minute = 0, second = 0\<rparr>,
      statusFlag = 0, sumSat = 7,
      listSatPRN = [''G01'', ''G02'', ''G03'', ''G04'', ''G05'', ''G06'', ''G07''],
      pseudorange_C1C = [21000300, 21000000, 0, 21000000, 21000000, 22000000, 21000000],
      pseudorange_C2P = [0, 0, 0, 0, 0, 0, 0],
      phase_L1C = [0, 0, 0, 0, 0, 0, 0],
      phase_L2P = [0, 0, 0, 0, 0, 0, 0]\<rparr>"

definition exApprox :: Vector3d where
  "exApprox = (0, 0, 6356752)"

text \<open>The same navigation data with a record for G03 as well.\<close>

definition exNavigationAll :: "(real \<Rightarrow> Vector3d) NavigationData" where
  "exNavigationAll t prn =
     (if prn = ''G03'' then Some (exNav 0 (0, 0, 27356752)) else exNavigation t prn)"

text \<open>The example epoch with a measured pseudorange for G03, which has no navigation record.\<close>

definition exEpochG03 :: ObservationRecord where
  "exEpochG03 = exEpoch\<lparr>pseudorange_C1C :=
                   [21000300, 21000000, 21000000, 21000000, 21000000, 22000000, 21000000]\<rparr>"

text \<open>A satellite whose position jumps so that the delay estimate alternates between 0.075 and 0.07.\<close>

definition exNavOscillating :: "(real \<Rightarrow> Vector3d) NavigationRecord_scheme" where
  "exNavOscillating =
     \<lparr>OmegaDOT = 0, a0 = 0, a1 = 0, a2 = 0, Toc = exToc,
      \<dots> = (\<lambda>t. if t \<le> 3599.9275 then (0, 0, 27342224.06) else (0, 0, 28841186.35))\<rparr>"

definition exEpochG08 :: ObservationRecord where
  "exEpochG08 = exEpoch\<lparr>sumSat := 1, listSatPRN := [''G08''], pseudorange_C1C := [22000000],
                   pseudorange_C2P := [0], phase_L1C := [0], phase_L2P := [0]\<rparr>"

definition exNavigationG08 :: "(real \<Rightarrow> Vector3d) NavigationData" where
  "exNavigationG08 t prn = (if prn = ''G08'' then Some exNavOscillating else None)"

text \<open>Epochs with three usable satellites and with no retained satellite.\<close>

definition exEpochThree :: ObservationRecord where
  "exEpochThree = exEpoch\<lparr>sumSat := 3, listSatPRN := [''G02'', ''G04'', ''G05''],
                      pseudorange_C1C := [21000000, 21000000, 21000000],
                      pseudorange_C2P := [0, 0, 0], phase_L1C := [0, 0, 0], phase_L2P := [0, 0, 0]\<rparr>"

definition exEpochNone :: ObservationRecord where
  "exEpochNone = exEpoch\<lparr>sumSat := 2, listSatPRN := [], pseudorange_C1C := [],
                     pseudorange_C2P := [], phase_L1C := [], phase_L2P := []\<rparr>"

text \<open>An observation file: a header line declaring two satellites, a GPS line and a GLONASS line.\<close>

definition exAtoi :: "string \<Rightarrow> int" where
  "exAtoi s = foldl (\<lambda>n c. 10 * n + (int (of_char c) - 48)) 0
                (filter (\<lambda>c. 48 \<le> (of_char c :: nat) \<and> (of_char c :: nat) \<le> 57) s)"

definition exAtof :: "string \<Rightarrow> real" where
  "exAtof s = of_int (exAtoi (takeWhile (\<lambda>c. c \<noteq> CHR ''.'') s))"

definition exHeaderLine :: string where
  "exHeaderLine = ''>'' @ '' 2020'' @ '' 01'' @ '' 05'' @ '' 01'' @ '' 00'' @ ''  0.0000000'' @ ''  0'' @ ''  2''"

definition exLineG01 :: string where
  "exLineG01 = ''G01'' @ ''  21000300.000'' @ ''  '' @ ''  21000305.000'' @ ''  '' @ ''              ''
               @ ''  '' @ '' 110355000.000'' @ ''  '' @ ''  85990000.000''"

definition exLineR05 :: string where
  "exLineR05 = ''R05'' @ ''  19000000.000''"

definition exFile :: ifstream where
  "exFile = \<lparr>pending = [exLineG01, exLineR05], finalNewline = True, good = True\<rparr>"

text \<open>An observation file whose epoch declares two satellites, both GLONASS.\<close>

definition exLineR07 :: string where
  "exLineR07 = ''R07'' @ ''  19500000.000''"

definition exFileGlonass :: ifstream where
  "exFileGlonass = \<lparr>pending = [exLineR05, exLineR07], finalNewline = True, good = True\<rparr>"

definition emptyRecord :: "int \<Rightarrow> ObservationRecord" where
  "emptyRecord n =
     \<lparr>receiverTime = \<lparr>year = 2020, month = 1, day = 5, hour = 1, minute = 0, second = 0\<rparr>,
      statusFlag = 0, sumSat = n,
      listSatPRN = [], pseudorange_C1C = [], pseudorange_C2P = [], phase_L1C = [], phase_L2P = []\<rparr>"

text \<open>Four satellites at the zenith and an \<open>inverse()\<close> that turns every residual into a
  small step along the Z axis: the outer loop never meets its tolerance.\<close>

definition exEnvDrift :: "(Vector3d, real \<Rightarrow> Vector3d) env" where
  "exEnvDrift = exEnv\<lparr>inverse_Eigen := (\<lambda>N i j. if i = 2 \<and> j = 3 then 1 / (4 * 10 ^ 6) else 0)\<rparr>"

definition exNavigationZenith :: "(real \<Rightarrow> Vector3d) NavigationData" where
  "exNavigationZenith t prn = Some (exNav 0 (0, 0, 27356752))"

definition exEpochZenith :: ObservationRecord where
  "exEpochZenith = exEpoch\<lparr>sumSat := 4, listSatPRN := [''G05'', ''G06'', ''G07'', ''G08''],
                       pseudorange_C1C := [21001000, 21001000, 21001000, 21001000],
                       pseudorange_C2P := [0, 0, 0, 0], phase_L1C := [0, 0, 0, 0],
                       phase_L2P := [0, 0, 0, 0]\<rparr>"

section \<open>Properties\<close>

subsection \<open>Vectors, matrices and lists\<close>


lemma vnorm_ge_first: "\<bar>x\<bar> \<le> vnorm (x, y, z)"
proof -
  have "sqrt (x\<^sup>2) \<le> sqrt (x\<^sup>2 + y\<^sup>2 + z\<^sup>2)"
    by (rule real_sqrt_le_mono) simp
  thus ?thesis by simp
qed

lemma vnorm_z: "vnorm (0, 0, z) = \<bar>z\<bar>"
  by simp

lemma dot_sum:
  assumes "length xs = length ys"
  shows "dot xs ys = (\<Sum>l<length xs. xs ! l * ys ! l)"
  using assms by (simp add: dot_def sum_list_sum_nth atLeast0LessThan)

lemma transposeN_coeff:
  assumes "j < k" "i < length A"
  shows "transposeN k A ! j ! i = A ! i ! j"
  using assms by (simp add: transposeN_def)

lemma mmul_coeff:
  assumes "i < length A" "j < k" "length (A ! i) = length B"
  shows "mmul k A B ! i ! j = (\<Sum>l<length B. A ! i ! l * B ! l ! j)"
  using assms by (simp add: mmul_def transposeN_def dot_sum)

lemma matvec_coeff:
  assumes "i < length A" "length (A ! i) = length v"
  shows "matvec A v ! i = (\<Sum>l<length v. A ! i ! l * v ! l)"
  using assms by (simp add: matvec_def dot_sum)

lemma take_Suc_update:
  "k < length xs \<Longrightarrow> take (Suc k) (xs[k := v]) = take k xs @ [v]"
  by (simp add: take_Suc_conv_app_nth)

lemma list_update_Cons_numeral:
  "(x # xs)[numeral k := y] = x # xs[pred_numeral k := y]"
  by (simp add: numeral_eq_Suc)

lemma list_update_Cons_1:
  "(x # xs)[1 := y] = x # xs[0 := y]"
  by simp

subsection \<open>The satellite loop and the compaction\<close>

lemma satLoop_Disposed:
  assumes "satIndex < length (listSatPRN r)"
    and "processSat e r nd a rc clk satIndex = Disposed"
  shows "satLoop e r nd a rc clk satIndex s =
         satLoop e r nd a rc clk (satIndex + 1) (s\<lparr>countDisposed := countDisposed s + 1\<rparr>)"
  using assms by (subst satLoop.simps) simp

lemma satLoop_Accepted:
  assumes "satIndex < length (listSatPRN r)"
    and "processSat e r nd a rc clk satIndex = Accepted row ob wt"
  shows "satLoop e r nd a rc clk satIndex s =
         satLoop e r nd a rc clk (satIndex + 1)
           (s\<lparr>designMat := (designMat s)[satIndex - countDisposed s := row],
              observableVec := (observableVec s)[satIndex - countDisposed s := ob],
              weightVec := (weightVec s)[satIndex - countDisposed s := wt]\<rparr>)"
  using assms by (subst satLoop.simps) simp

lemma satLoop_end:
  assumes "\<not> satIndex < length (listSatPRN r)"
  shows "satLoop e r nd a rc clk satIndex s = Inr (Some s)"
  using assms by (subst satLoop.simps) simp

lemma passInv_Disposed:
  assumes "passInv e r nd a rc clk i s" "i < length (listSatPRN r)"
    and "processSat e r nd a rc clk i = Disposed"
  shows "passInv e r nd a rc clk (i + 1) (s\<lparr>countDisposed := countDisposed s + 1\<rparr>)"
  using assms by (simp add: passInv_def acceptedUpTo_def Let_def)

lemma passInv_Accepted:
  assumes "passInv e r nd a rc clk i s" "i < length (listSatPRN r)"
    and "processSat e r nd a rc clk i = Accepted row ob wt"
  shows "passInv e r nd a rc clk (i + 1)
           (s\<lparr>designMat := (designMat s)[i - countDisposed s := row],
              observableVec := (observableVec s)[i - countDisposed s := ob],
              weightVec := (weightVec s)[i - countDisposed s := wt]\<rparr>)"
proof -
  let ?acc = "acceptedUpTo e r nd a rc clk i"
  have k: "i - countDisposed s = length ?acc" "length ?acc < length (listSatPRN r)"
    using assms(1,2) by (auto simp: passInv_def Let_def)
  have acc': "acceptedUpTo e r nd a rc clk (Suc i) = ?acc @ [Accepted row ob wt]"
    using assms(3) by (simp add: acceptedUpTo_def)
  show ?thesis
    using assms(1,2) k
    by (simp add: passInv_def Let_def acc' take_Suc_update)
qed

lemma satLoop_passInv:
  assumes "satLoop e r nd a rc clk i s = Inr (Some s')" "passInv e r nd a rc clk i s"
  shows "passInv e r nd a rc clk (length (listSatPRN r)) s'"
  using assms
proof (induction e r nd a rc clk i s rule: satLoop.induct)
  case (1 e r nd a rc clk i s)
  show ?case
  proof (cases "i < length (listSatPRN r)")
    case False
    with "1.prems" show ?thesis
      by (subst (asm) satLoop.simps) (auto simp: passInv_def Let_def)
  next
    case True
    show ?thesis
    proof (cases "processSat e r nd a rc clk i")
      case Disposed
      with True "1.prems"(1)
      have "satLoop e r nd a rc clk (i + 1) (s\<lparr>countDisposed := countDisposed s + 1\<rparr>) = Inr (Some s')"
        by (subst (asm) satLoop.simps) simp
      thus ?thesis
        using "1.IH"(1)[OF True Disposed] passInv_Disposed[OF "1.prems"(2) True Disposed] by blast
    next
      case (Accepted row ob wt)
      with True "1.prems"(1)
      have "satLoop e r nd a rc clk (i + 1)
              (s\<lparr>designMat := (designMat s)[i - countDisposed s := row],
                 observableVec := (observableVec s)[i - countDisposed s := ob],
                 weightVec := (weightVec s)[i - countDisposed s := wt]\<rparr>) = Inr (Some s')"
        by (subst (asm) satLoop.simps) simp
      thus ?thesis
        using "1.IH"(2)[OF True Accepted] passInv_Accepted[OF "1.prems"(2) True Accepted] by blast
    next
      case ReturnNull
      with True "1.prems"(1) show ?thesis by (subst (asm) satLoop.simps) simp
    next
      case (Throws x)
      with True "1.prems"(1) show ?thesis by (subst (asm) satLoop.simps) simp
    qed
  qed
qed

lemma passInv_initial: "passInv e r nd a rc clk 0 (initialState e (length (listSatPRN r)))"
  by (simp add: passInv_def acceptedUpTo_def initialState_def)

lemma compact_nothing_disposed: "countDisposed s = 0 \<Longrightarrow> compact n s = Some s"
  by (simp add: compact_def)

lemma compact_too_few:
  "0 < countDisposed s \<Longrightarrow> n - countDisposed s < 4 \<Longrightarrow> compact n s = None"
  by (simp add: compact_def)

lemma assemble_accepted:
  assumes "assemble e r nd a rc clk = Inr (Some s)"
  shows "designMat s = map rowOf (acceptedUpTo e r nd a rc clk (length (listSatPRN r)))"
    and "observableVec s = map obOf (acceptedUpTo e r nd a rc clk (length (listSatPRN r)))"
    and "weightVec s = map wtOf (acceptedUpTo e r nd a rc clk (length (listSatPRN r)))"
    and "countDisposed s + length (designMat s) = length (listSatPRN r)"
proof -
  let ?n = "length (listSatPRN r)"
  let ?acc = "acceptedUpTo e r nd a rc clk ?n"
  from assms obtain s0 where s0: "satLoop e r nd a rc clk 0 (initialState e ?n) = Inr (Some s0)"
    and c: "compact ?n s0 = Some s"
    by (auto simp: assemble_def split: sum.splits option.splits)
  have inv: "passInv e r nd a rc clk ?n s0"
    using satLoop_passInv[OF s0 passInv_initial] .
  hence len: "countDisposed s0 + length ?acc = ?n" "length (designMat s0) = ?n"
    "length (observableVec s0) = ?n" "length (weightVec s0) = ?n"
    and tk: "take (length ?acc) (designMat s0) = map rowOf ?acc"
      "take (length ?acc) (observableVec s0) = map obOf ?acc"
      "take (length ?acc) (weightVec s0) = map wtOf ?acc"
    by (auto simp: passInv_def Let_def)
  have eq: "?n - countDisposed s0 = length ?acc" using len(1) by arith
  show "designMat s = map rowOf ?acc" "observableVec s = map obOf ?acc"
    "weightVec s = map wtOf ?acc" "countDisposed s + length (designMat s) = ?n"
    using c len tk eq
    by (auto simp: compact_def split: if_splits)
qed

subsection \<open>The result depends on the lookup only at usable satellites\<close>

lemma processSat_lookup_cong:
  assumes "\<And>i. i < length (listSatPRN r) \<Longrightarrow> i < length (pseudorange_C1C r) \<Longrightarrow>
                \<not> pseudorange_C1C r ! i < EPS e \<Longrightarrow>
                nd (receiverTime r) (listSatPRN r ! i) = nd' (receiverTime r) (listSatPRN r ! i)"
  shows "processSat e r nd a rc clk i = processSat e r nd' a rc clk i"
  using assms[of i] by (simp add: processSat_def vector_at_def)

lemma satLoop_lookup_cong:
  assumes "\<And>i. processSat e r nd a rc clk i = processSat e r nd' a rc clk i"
  shows "satLoop e r nd a rc clk i s = satLoop e r nd' a rc clk i s"
proof (induction "length (listSatPRN r) - i" arbitrary: i s)
  case 0
  thus ?case by (simp add: satLoop.simps[of _ _ _ _ _ _ i s])
next
  case (Suc k)
  hence lt: "i < length (listSatPRN r)" and k: "k = length (listSatPRN r) - (i + 1)" by simp_all
  show ?case
    using lt assms[of i] Suc.hyps(1)[OF k]
    by (simp add: satLoop.simps[of _ _ _ _ _ _ i s] split: satOutcome.splits)
qed

lemma adjustLoop_lookup_cong:
  assumes "\<And>i rc clk. processSat e r nd a rc clk i = processSat e r nd' a rc clk i"
  shows "adjustLoop e r nd a itr rc clk = adjustLoop e r nd' a itr rc clk"
proof (induction "100 - itr" arbitrary: itr rc clk)
  case 0
  thus ?case by (simp add: adjustLoop.simps[of _ _ _ _ itr rc clk])
next
  case (Suc k)
  hence lt: "\<not> 100 \<le> itr" and k: "k = 100 - (itr + 1)" by simp_all
  have pass: "outerPass e r nd a rc clk = outerPass e r nd' a rc clk"
    using satLoop_lookup_cong[of e r nd a rc clk nd', OF assms]
    by (simp add: outerPass_def assemble_def)
  show ?case
    using lt Suc.hyps(1)[OF k]
    by (simp add: adjustLoop.simps[of _ _ _ _ itr rc clk] pass split: sum.splits option.splits)
qed

subsection \<open>Early returns\<close>

lemma processSat_no_throw:
  assumes "satIndex < length (listSatPRN r)" "satIndex < length (pseudorange_C1C r)"
  shows "processSat e r nd a rc clk satIndex \<noteq> Throws x"
  using assms
  by (simp add: processSat_def vector_at_def Let_def split: option.splits prod.splits)

lemma satLoop_ReturnNull:
  assumes "i < length (listSatPRN r)"
    and "processSat e r nd a rc clk i = ReturnNull"
    and "length (listSatPRN r) \<le> length (pseudorange_C1C r)"
    and "j \<le> i"
  shows "satLoop e r nd a rc clk j s = Inr None"
  using assms(4)
proof (induction "i - j" arbitrary: j s)
  case 0
  hence "j = i" by simp
  thus ?case using assms(1,2) by (simp add: satLoop.simps[of _ _ _ _ _ _ i s])
next
  case (Suc k)
  hence lt: "j < i" and k: "k = i - (j + 1)" and le: "j + 1 \<le> i" by simp_all
  have jn: "j < length (listSatPRN r)" "j < length (pseudorange_C1C r)"
    using lt assms(1,3) by simp_all
  show ?case
    using jn(1) processSat_no_throw[OF jn, of e nd a rc clk] Suc.hyps(1)[OF k le]
    by (simp add: satLoop.simps[of _ _ _ _ _ _ j s] split: satOutcome.splits)
qed

lemma outerPass_ReturnNull:
  assumes "i < length (listSatPRN r)"
    and "processSat e r nd a rc clk i = ReturnNull"
    and "length (listSatPRN r) \<le> length (pseudorange_C1C r)"
  shows "outerPass e r nd a rc clk = Inr None"
  using satLoop_ReturnNull[OF assms, of 0]
  by (simp add: outerPass_def assemble_def)

lemma adjustLoop_pass_fails:
  assumes "outerPass e r nd a rc clk = Inr None"
  shows "adjustLoop e r nd a itr rc clk = Inr None"
  using assms by (simp add: adjustLoop.simps[of _ _ _ _ itr rc clk])

lemma first_pass_too_few:
  assumes "satLoop e r nd a (toXYZ e a) 0 0 (initialState e (length (listSatPRN r))) = Inr (Some s)"
    and "0 < countDisposed s" and "length (listSatPRN r) - countDisposed s < 4"
  shows "computeReceiverPosition e r nd a = Inr None"
proof -
  have "outerPass e r nd a (toXYZ e a) 0 = Inr None"
    using assms by (simp add: outerPass_def assemble_def compact_too_few)
  thus ?thesis unfolding computeReceiverPosition_def by (rule adjustLoop_pass_fails)
qed

lemma adjustLoop_outerIterate:
  assumes "outerIterate e r nd a k = Some (rc, clk)" "k \<le> 100"
  shows "computeReceiverPosition e r nd a = adjustLoop e r nd a k rc clk"
  using assms
proof (induction k arbitrary: rc clk)
  case 0
  thus ?case by (simp add: computeReceiverPosition_def)
next
  case (Suc k)
  from Suc.prems(1) obtain rc0 clk0 sol where
    it: "outerIterate e r nd a k = Some (rc0, clk0)"
    and pass: "outerPass e r nd a rc0 clk0 = Inr (Some (rc, clk, sol))"
    and nc: "\<not> vnorm (sol ! 0, sol ! 1, sol ! 2) < ITER_TOL"
    by (auto split: option.splits sum.splits prod.splits if_splits)
  have "computeReceiverPosition e r nd a = adjustLoop e r nd a k rc0 clk0"
    using Suc.prems(2) by (intro Suc.IH[OF it]) simp
  also have "\<dots> = adjustLoop e r nd a (Suc k) rc clk"
    using Suc.prems(2) pass nc by (simp add: adjustLoop.simps[of _ _ _ _ k rc0 clk0])
  finally show ?case .
qed

lemma processSat_lightTime_None:
  assumes "satIndex < length (listSatPRN r)" "satIndex < length (pseudorange_C1C r)"
    and "\<not> pseudorange_C1C r ! satIndex < EPS e"
    and "nd (receiverTime r) (listSatPRN r ! satIndex) = Some closeRecord"
    and "lightTime e closeRecord (OmegaDOT closeRecord * (pseudorange_C1C r ! satIndex / Reference_c e))
           (GpsWeekSecond_second e (receiverTime r)) clk rc 0 0 0.075 = None"
  shows "processSat e r nd a rc clk satIndex = ReturnNull"
  using assms by (simp add: processSat_def vector_at_def Let_def)

lemma no_satellites_result:
  assumes "listSatPRN r = []"
  shows "computeReceiverPosition e r nd a = Inr (Some (Coordinates e (toXYZ e a)))"
proof -
  have "assemble e r nd a (toXYZ e a) 0 =
        Inr (Some \<lparr>designMat = [], observableVec = [], weightVec = [], countDisposed = 0\<rparr>)"
    using assms by (simp add: assemble_def satLoop.simps[of _ _ _ _ _ _ 0] initialState_def compact_def)
  moreover have "solveNormal e [] [] [] = [0, 0, 0, 0]"
    by (simp add: solveNormal_def Let_def mmul_def transposeN_def asDiagonal_def matvec_def dot_def upt_rec)
  ultimately have "outerPass e r nd a (toXYZ e a) 0 = Inr (Some (toXYZ e a, 0, [0, 0, 0, 0]))"
    by (cases "toXYZ e a") (simp add: outerPass_def Let_def)
  thus ?thesis
    by (simp add: computeReceiverPosition_def adjustLoop.simps[of _ _ _ _ 0] ITER_TOL_def)
qed

subsection \<open>The inner iteration\<close>

lemma lightTime_step:
  "lightTime e cr angle R clk rc i (previousTime e cr angle R clk rc i) (lightTimeDelay e cr angle R clk rc i) =
     (if 100 \<le> i then None
      else if timeSettled e cr angle R clk rc i
           then Some (satelliteAt e cr angle R clk rc i, transmissionTime e cr angle R clk rc i)
           else lightTime e cr angle R clk rc (Suc i) (previousTime e cr angle R clk rc (Suc i))
                  (lightTimeDelay e cr angle R clk rc (Suc i)))"
  apply (subst lightTime.simps)
  apply (simp only: Let_def timeSettled_def satelliteAt_def transmissionTime_def previousTime_def
           nat.case lightTimeDelay.simps)
  apply (simp only: Suc_eq_plus1)
  done

lemma lightTime_never_settled:
  assumes "\<And>k. i \<le> k \<Longrightarrow> k < 100 \<Longrightarrow> \<not> timeSettled e cr angle R clk rc k"
  shows "lightTime e cr angle R clk rc i (previousTime e cr angle R clk rc i)
           (lightTimeDelay e cr angle R clk rc i) = None"
  using assms
proof (induction "100 - i" arbitrary: i)
  case 0
  thus ?case by (simp add: lightTime_step)
next
  case (Suc n)
  hence lt: "i < 100" and n: "n = 100 - Suc i" by simp_all
  have "\<not> timeSettled e cr angle R clk rc i" using Suc.prems lt by simp
  moreover have "lightTime e cr angle R clk rc (Suc i) (previousTime e cr angle R clk rc (Suc i))
           (lightTimeDelay e cr angle R clk rc (Suc i)) = None"
    using Suc.prems by (intro Suc.hyps(1)[OF n]) simp
  ultimately show ?case using lt by (simp add: lightTime_step)
qed


lemma lightTime_start:
  "lightTime e cr angle R clk rc 0 0 0.075 =
   lightTime e cr angle R clk rc 0 (previousTime e cr angle R clk rc 0) (lightTimeDelay e cr angle R clk rc 0)"
  by (simp add: previousTime_def)






lemma lightTime_static:
  assumes "\<And>t. toXYZ e (computeSatellitePosition e nav t) = P"
    and "\<not> \<bar>R - clk - 0.075\<bar> \<le> ITER_TOL"
  shows "lightTime e nav angle R clk rc 0 0 0.075 =
         Some (rotationCorrection angle P, R - clk - vnorm (vminus (rotationCorrection angle P) rc) / Reference_c e)"
proof -
  let ?d = "vnorm (vminus (rotationCorrection angle P) rc) / Reference_c e"
  have 0: "lightTime e nav angle R clk rc 0 0 0.075 = lightTime e nav angle R clk rc (Suc 0) (R - clk - 0.075) ?d"
    using assms by (subst lightTime.simps) (simp add: Let_def)
  have 2: "lightTime e nav angle R clk rc (Suc (Suc 0)) (R - clk - ?d) ?d = Some (rotationCorrection angle P, R - clk - ?d)"
    using assms(1) by (subst lightTime.simps) (simp add: Let_def ITER_TOL_def)
  have 1: "lightTime e nav angle R clk rc (Suc 0) (R - clk - 0.075) ?d = Some (rotationCorrection angle P, R - clk - ?d)"
    using assms(1) 2 by (subst lightTime.simps) (simp add: Let_def)
  show ?thesis using 0 1 by simp
qed

subsection \<open>Evaluating the example epoch\<close>

lemma arcsin_half: "arcsin (1 / 2) = pi / 6"
proof -
  have "arcsin (sin (pi / 6)) = pi / 6" by (rule arcsin_sin) simp_all
  thus ?thesis by (simp add: sin_30)
qed

lemma arcsin_above_cutoff:
  assumes "1 / 2 \<le> x" "x \<le> 1"
  shows "\<not> arcsin x \<le> 10 / 180 * pi"
proof -
  have "arcsin (1 / 2) \<le> arcsin x" using assms by (intro arcsin_le_arcsin) simp_all
  hence "pi / 6 \<le> arcsin x" by (simp add: arcsin_half)
  moreover have "10 / 180 * pi < pi / 6" by simp
  ultimately show ?thesis by linarith
qed

lemma exEnv_simps:
  "Reference_c exEnv = 299792458" "PI exEnv = pi" "EPS exEnv = 1 / 10 ^ 10"
  "Coordinates exEnv v = v" "toXYZ exEnv v = v" "toNEU exEnv s ref = vminus s ref"
  "GpsWeekSecond_second exEnv t = of_int (hour t * 3600 + minute t * 60 + second t)"
  "computeSatellitePosition exEnv nav t' = NavigationRecord.more nav t'"
  "uninitialized exEnv i j = 0"
  by (simp_all add: exEnv_def)

lemma exNav_simps:
  "OmegaDOT (exNav b P) = 0" "a0 (exNav b P) = b" "a1 (exNav b P) = 0" "a2 (exNav b P) = 0"
  "Toc (exNav b P) = exToc" "NavigationRecord.more (exNav b P) t = P"
  by (simp_all add: exNav_def)

lemma ex_lightTime:
  "lightTime exEnv (exNav b P) 0 3600 0 rc 0 0 (3 / 40) = Some (P, 3600 - vnorm (vminus P rc) / 299792458)"
proof -
  have "lightTime exEnv (exNav b P) 0 3600 0 rc 0 0 0.075 =
        Some (rotationCorrection 0 P, 3600 - 0 - vnorm (vminus (rotationCorrection 0 P) rc) / Reference_c exEnv)"
    by (rule lightTime_static) (simp_all add: exEnv_simps exNav_simps ITER_TOL_def)
  moreover have "rotationCorrection 0 P = P" by (cases P) simp
  moreover have "(0.075::real) = 3 / 40" by simp
  ultimately show ?thesis by (simp add: exEnv_simps)
qed

lemmas ex_eval = processSat_def vector_at_def exEpoch_def exNavigation_def exApprox_def
      ex_lightTime Let_def CUTOFF_ELEVATION_def BLUNDER_PICKER_def exEnv_simps exNav_simps exToc_def power_divide

lemma ex_sat0:
  "processSat exEnv exEpoch exNavigation exApprox exApprox 0 0 =
     Accepted [- (1 / 3), - (2 / 3), - (2 / 3), 1] (299896229 / 500000) (4 / 9)"
proof -
  have "\<not> arcsin (2 / 3) \<le> 10 / 180 * pi" by (rule arcsin_above_cutoff) simp_all
  thus ?thesis by (simp add: ex_eval)
qed

lemma ex_sat1:
  "processSat exEnv exEpoch exNavigation exApprox exApprox 0 1 =
     Accepted [- (2 / 3), - (1 / 3), - (2 / 3), 1] 0 (4 / 9)"
proof -
  have "\<not> arcsin (2 / 3) \<le> 10 / 180 * pi" by (rule arcsin_above_cutoff) simp_all
  thus ?thesis by (simp add: ex_eval)
qed

lemma ex_sat2:
  "processSat exEnv exEpoch exNavigation exApprox exApprox 0 2 = Disposed"
  by (simp add: ex_eval)

lemma ex_sat3:
  "processSat exEnv exEpoch exNavigation exApprox exApprox 0 3 =
     Accepted [2 / 3, 1 / 3, - (2 / 3), 1] 0 (4 / 9)"
proof -
  have "\<not> arcsin (2 / 3) \<le> 10 / 180 * pi" by (rule arcsin_above_cutoff) simp_all
  thus ?thesis by (simp add: ex_eval)
qed

lemma ex_sat4:
  "processSat exEnv exEpoch exNavigation exApprox exApprox 0 4 =
     Accepted [0, 0, - 1, 1] 0 1"
  by (simp add: ex_eval)

lemma ex_sat5:
  "processSat exEnv exEpoch exNavigation exApprox exApprox 0 5 = Disposed"
  by (simp add: ex_eval)

lemma ex_sat6:
  "processSat exEnv exEpoch exNavigation exApprox exApprox 0 6 = Disposed"
  by (simp add: ex_eval)

lemma ex_len: "length (listSatPRN exEpoch) = 7"
  by (simp add: exEpoch_def)

lemma ex_satLoop:
  "satLoop exEnv exEpoch exNavigation exApprox exApprox 0 0 (initialState exEnv 7) =
     Inr (Some \<lparr>designMat = [[- (1 / 3), - (2 / 3), - (2 / 3), 1], [- (2 / 3), - (1 / 3), - (2 / 3), 1],
                             [2 / 3, 1 / 3, - (2 / 3), 1], [0, 0, - 1, 1],
                             [0, 0, 0, 0], [0, 0, 0, 0], [0, 0, 0, 0]],
                 observableVec = [299896229 / 500000, 0, 0, 0, 0, 0, 0],
                 weightVec = [4 / 9, 4 / 9, 4 / 9, 1, 0, 0, 0],
                 countDisposed = 3\<rparr>)"
  by (simp add: satLoop.simps ex_len ex_sat0 ex_sat1 ex_sat2 ex_sat3 ex_sat4 ex_sat5 ex_sat6
      initialState_def exEnv_simps upt_rec del: One_nat_def)
     (simp add: list_update_Cons_numeral)

lemma ex_assemble:
  "assemble exEnv exEpoch exNavigation exApprox exApprox 0 =
     Inr (Some \<lparr>designMat = [[- (1 / 3), - (2 / 3), - (2 / 3), 1], [- (2 / 3), - (1 / 3), - (2 / 3), 1],
                             [2 / 3, 1 / 3, - (2 / 3), 1], [0, 0, - 1, 1]],
                 observableVec = [299896229 / 500000, 0, 0, 0],
                 weightVec = [4 / 9, 4 / 9, 4 / 9, 1],
                 countDisposed = 3\<rparr>)"
  by (simp add: assemble_def ex_len ex_satLoop compact_def)

lemma ex_normal_matrix:
  "mmul 4 (mmul 4 (transposeN 4 [[- (1 / 3), - (2 / 3), - (2 / 3), 1], [- (2 / 3), - (1 / 3), - (2 / 3), 1],
                      [2 / 3, 1 / 3, - (2 / 3), 1], [0, 0, - 1, 1]]) (asDiagonal [4 / 9, 4 / 9, 4 / 9, 1]))
        [[- (1 / 3), - (2 / 3), - (2 / 3), 1], [- (2 / 3), - (1 / 3), - (2 / 3), 1],
                      [2 / 3, 1 / 3, - (2 / 3), 1], [0, 0, - 1, 1]]
   = [[4 / 9, 8 / 27, 8 / 81, - (4 / 27)], [8 / 27, 8 / 27, 16 / 81, - (8 / 27)],
      [8 / 81, 16 / 81, 43 / 27, - (17 / 9)], [- (4 / 27), - (8 / 27), - (17 / 9), 7 / 3]]"
  by (simp add: mmul_def transposeN_def asDiagonal_def dot_def upt_rec)

lemma ex_inverse_table:
  "mmul 4 [[4 / 9, 8 / 27, 8 / 81, - (4 / 27)], [8 / 27, 8 / 27, 16 / 81, - (8 / 27)],
           [8 / 81, 16 / 81, 43 / 27, - (17 / 9)], [- (4 / 27), - (8 / 27), - (17 / 9), 7 / 3]]
     (map (\<lambda>i. map (\<lambda>j. inverse_Eigen exEnv N i j) [0..<4]) [0..<4])
   = [[1, 0, 0, 0], [0, 1, 0, 0], [0, 0, 1, 0], [0, 0, 0, 1]]"
  by (simp add: mmul_def transposeN_def dot_def exEnv_def upt_rec)

lemma ex_solveNormal:
  "solveNormal exEnv [[- (1 / 3), - (2 / 3), - (2 / 3), 1], [- (2 / 3), - (1 / 3), - (2 / 3), 1],
                      [2 / 3, 1 / 3, - (2 / 3), 1], [0, 0, - 1, 1]]
     [4 / 9, 4 / 9, 4 / 9, 1] [299896229 / 500000, 0, 0, 0]
   = [299896229 / 500000, - (299896229 / 250000), 0, 0]"
  by (simp add: solveNormal_def Let_def mmul_def transposeN_def asDiagonal_def matvec_def dot_def
      exEnv_def upt_rec)

lemma ex_outerPass:
  "outerPass exEnv exEpoch exNavigation exApprox exApprox 0 =
     Inr (Some ((299896229 / 500000, - (299896229 / 250000), 6356752), 0,
                [299896229 / 500000, - (299896229 / 250000), 0, 0]))"
  unfolding outerPass_def ex_assemble
  by (simp add: ex_solveNormal Let_def exApprox_def exEnv_simps)

lemma upt_7: "[0..<7] = [0, 1, 2, 3, 4, 5, 6]"
  by (simp add: upt_rec)

lemma ex_accepted:
  "acceptedUpTo exEnv exEpoch exNavigation exApprox exApprox 0 7 =
     [Accepted [- (1 / 3), - (2 / 3), - (2 / 3), 1] (299896229 / 500000) (4 / 9),
      Accepted [- (2 / 3), - (1 / 3), - (2 / 3), 1] 0 (4 / 9),
      Accepted [2 / 3, 1 / 3, - (2 / 3), 1] 0 (4 / 9),
      Accepted [0, 0, - 1, 1] 0 1]"
  unfolding acceptedUpTo_def upt_7
  by (simp add: ex_sat0 ex_sat1 ex_sat2 ex_sat3 ex_sat4 ex_sat5 ex_sat6 del: One_nat_def)

lemma ex_usable_iff:
  "i < 7 \<Longrightarrow> \<not> pseudorange_C1C exEpoch ! i < EPS exEnv \<Longrightarrow> listSatPRN exEpoch ! i \<noteq> ''G03''"
  by (auto simp: exEpoch_def exEnv_simps less_Suc_eq numeral_eq_Suc)

subsection \<open>The reader\<close>

lemma substr_0: "substr s 0 n = Inr (take n s)"
  by (simp add: substr_def)

lemma readSatellites_invariant:
  assumes "readSatellites atof i f l r = Inr (f', l', r')"
    and "parallel r" and "onlyGPS r"
    and "0 \<le> i" and "int (length (listSatPRN r)) \<le> i"
  shows "parallel r' \<and> onlyGPS r' \<and> sumSat r' = sumSat r \<and>
         int (length (listSatPRN r')) \<le> max i (sumSat r)"
  using assms
proof (induction atof i f l r rule: readSatellites.induct)
  case (1 atof i f l r)
  show ?case
  proof (cases "i < sumSat r")
    case False
    with "1.prems" show ?thesis
      by (simp add: readSatellites.simps[of atof i f l r])
  next
    case True
    obtain f1 l1 where g: "getline f l = (f1, l1)" by (cases "getline f l") auto
    show ?thesis
    proof (cases "take 1 l1 \<noteq> ''G''")
      case notG: True
      have "readSatellites atof (i + 1) f1 l1 r = Inr (f', l', r')"
        using "1.prems"(1) True g notG
        by (simp add: readSatellites.simps[of atof i f l r] substr_0)
      moreover have "0 \<le> i + 1" "int (length (listSatPRN r)) \<le> i + 1"
        using "1.prems"(4,5) by simp_all
      ultimately have "parallel r' \<and> onlyGPS r' \<and> sumSat r' = sumSat r \<and>
         int (length (listSatPRN r')) \<le> max (i + 1) (sumSat r)"
        using "1.IH"(1)[of f1 l1 "take 1 l1"] True g notG "1.prems"(2,3)
        by (simp add: substr_0)
      thus ?thesis using True by simp
    next
      case isG: False
      hence G: "take 1 l1 = ''G''" by simp
      from "1.prems"(1) True g G obtain c1c c2p l1c l2p where
        s: "substr l1 3 14 = Inr c1c" "substr l1 19 14 = Inr c2p"
           "substr l1 51 14 = Inr l1c" "substr l1 67 14 = Inr l2p"
        by (auto simp: readSatellites.simps[of atof i f l r] substr_0
            split: sum.splits)
      let ?r = "r\<lparr>listSatPRN := listSatPRN r @ [take 3 l1],
                   pseudorange_C1C := pseudorange_C1C r @ [atof c1c],
                   pseudorange_C2P := pseudorange_C2P r @ [atof c2p],
                   phase_L1C := phase_L1C r @ [atof l1c],
                   phase_L2P := phase_L2P r @ [atof l2p]\<rparr>"
      have rec: "readSatellites atof (i + 1) f1 l1 ?r = Inr (f', l', r')"
        using "1.prems"(1) True g G s
        by (simp add: readSatellites.simps[of atof i f l r] substr_0)
      have "take 1 (take 3 l1) = ''G''" using G by (simp add: min_def)
      hence inv: "parallel ?r" "onlyGPS ?r"
        using "1.prems"(2,3) by (simp_all add: parallel_def onlyGPS_def)
      have cnt: "0 \<le> i + 1" "int (length (listSatPRN ?r)) \<le> i + 1"
        using "1.prems"(4,5) by simp_all
      have "parallel r' \<and> onlyGPS r' \<and> sumSat r' = sumSat ?r \<and>
         int (length (listSatPRN r')) \<le> max (i + 1) (sumSat ?r)"
        using "1.IH"(2)[of f1 l1 "take 1 l1" "take 3 l1" c1c c2p l1c l2p] True g G s rec inv cnt
        by (simp add: substr_0)
      thus ?thesis using True by simp
    qed
  qed
qed

lemma getline_good:
  assumes "good f" "pending f = x # xs"
  shows "snd (getline f l) = x" "pending (fst (getline f l)) = xs"
    "good (fst (getline f l)) \<or> xs = []"
  using assms by (auto simp: getline_def)

lemma readSatellites_retained:
  assumes "readSatellites atof i f l r = Inr (f', l', r')"
    and "good f \<or> sumSat r \<le> i"
    and "nat (sumSat r - i) \<le> length (pending f)"
  shows "listSatPRN r' = listSatPRN r @
           map (take 3) (filter (\<lambda>s. take 1 s = ''G'') (take (nat (sumSat r - i)) (pending f)))"
  using assms
proof (induction atof i f l r rule: readSatellites.induct)
  case (1 atof i f l r)
  show ?case
  proof (cases "i < sumSat r")
    case False
    with "1.prems" show ?thesis
      by (simp add: readSatellites.simps[of atof i f l r])
  next
    case True
    hence gd: "good f" using "1.prems"(2) by auto
    from True "1.prems"(3) obtain x xs where p: "pending f = x # xs"
      by (cases "pending f") auto
    obtain f1 l1 where g: "getline f l = (f1, l1)" by (cases "getline f l") auto
    have l1: "l1 = x" and p1: "pending f1 = xs" and g1: "good f1 \<or> xs = []"
      using getline_good[OF gd p, of l] g by simp_all
    have tk: "take (nat (sumSat r - i)) (pending f) = x # take (nat (sumSat r - (i + 1))) xs"
    proof -
      have "nat (sumSat r - i) = Suc (nat (sumSat r - (i + 1)))" using True by simp
      thus ?thesis using p by simp
    qed
    have nxt: "good f1 \<or> sumSat r \<le> i + 1" "nat (sumSat r - (i + 1)) \<le> length (pending f1)"
      using g1 "1.prems"(3) p p1 True by auto
    show ?thesis
    proof (cases "take 1 l1 \<noteq> ''G''")
      case notG: True
      have "readSatellites atof (i + 1) f1 l1 r = Inr (f', l', r')"
        using "1.prems"(1) True g notG
        by (simp add: readSatellites.simps[of atof i f l r] substr_0)
      hence "listSatPRN r' = listSatPRN r @
           map (take 3) (filter (\<lambda>s. take 1 s = ''G'') (take (nat (sumSat r - (i + 1))) (pending f1)))"
        using "1.IH"(1)[of f1 l1 "take 1 l1"] True g notG nxt
        by (simp add: substr_0)
      thus ?thesis using tk notG l1 p1 by simp
    next
      case isG: False
      hence G: "take 1 l1 = ''G''" by simp
      from "1.prems"(1) True g G obtain c1c c2p l1c l2p where
        s: "substr l1 3 14 = Inr c1c" "substr l1 19 14 = Inr c2p"
           "substr l1 51 14 = Inr l1c" "substr l1 67 14 = Inr l2p"
        by (auto simp: readSatellites.simps[of atof i f l r] substr_0
            split: sum.splits)
      let ?r = "r\<lparr>listSatPRN := listSatPRN r @ [take 3 l1],
                   pseudorange_C1C := pseudorange_C1C r @ [atof c1c],
                   pseudorange_C2P := pseudorange_C2P r @ [atof c2p],
                   phase_L1C := phase_L1C r @ [atof l1c],
                   phase_L2P := phase_L2P r @ [atof l2p]\<rparr>"
      have rec: "readSatellites atof (i + 1) f1 l1 ?r = Inr (f', l', r')"
        using "1.prems"(1) True g G s
        by (simp add: readSatellites.simps[of atof i f l r] substr_0)
      have "listSatPRN r' = listSatPRN ?r @
           map (take 3) (filter (\<lambda>s. take 1 s = ''G'') (take (nat (sumSat ?r - (i + 1))) (pending f1)))"
        using "1.IH"(2)[of f1 l1 "take 1 l1" "take 3 l1" c1c c2p l1c l2p] True g G s rec nxt
        by (simp add: substr_0)
      thus ?thesis using tk G l1 p1 by simp
    qed
  qed
qed

subsection \<open>Evaluating the example file\<close>

lemma ex_readSatellites:
  "readSatellites atof 0 exFile exHeaderLine (emptyRecord 2) =
     Inr (\<lparr>pending = [], finalNewline = True, good = True\<rparr>, exLineR05,
          (emptyRecord 2)\<lparr>listSatPRN := [''G01''],
             pseudorange_C1C := [atof ''  21000300.000''],
             pseudorange_C2P := [atof ''  21000305.000''],
             phase_L1C := [atof '' 110355000.000''],
             phase_L2P := [atof ''  85990000.000'']\<rparr>)"
  apply (subst readSatellites.simps)
  apply (simp add: emptyRecord_def exFile_def getline_def substr_def exLineG01_def)
  apply (subst readSatellites.simps)
  apply (simp add: getline_def substr_def exLineR05_def)
  apply (subst readSatellites.simps)
  apply simp
  done

lemma ex_readRecord:
  "readRecord exAtoi exAtof exFile exHeaderLine =
     Inr (\<lparr>pending = [], finalNewline = True, good = True\<rparr>, exLineR05,
          (emptyRecord 2)\<lparr>listSatPRN := [''G01''],
             pseudorange_C1C := [21000300], pseudorange_C2P := [21000305],
             phase_L1C := [110355000], phase_L2P := [85990000]\<rparr>)"
proof -
  have "readRecord exAtoi exAtof exFile exHeaderLine =
        readSatellites exAtof 0 exFile exHeaderLine (emptyRecord 2)"
    by (simp add: readRecord_def substr_def exHeaderLine_def exAtoi_def emptyRecord_def)
  thus ?thesis
    by (simp add: ex_readSatellites) (simp add: exAtof_def exAtoi_def)
qed

lemma exEpochNone_empty: "exEpochNone = emptyRecord 2"
  by (simp add: exEpochNone_def exEpoch_def emptyRecord_def)

lemma ex_readRecord_glonass:
  "readRecord exAtoi exAtof exFileGlonass exHeaderLine =
     Inr (\<lparr>pending = [], finalNewline = True, good = True\<rparr>, exLineR07, exEpochNone)"
proof -
  have "readRecord exAtoi exAtof exFileGlonass exHeaderLine =
        readSatellites exAtof 0 exFileGlonass exHeaderLine (emptyRecord 2)"
    by (simp add: readRecord_def substr_def exHeaderLine_def exAtoi_def emptyRecord_def)
  moreover have "readSatellites exAtof 0 exFileGlonass exHeaderLine (emptyRecord 2) =
     Inr (\<lparr>pending = [], finalNewline = True, good = True\<rparr>, exLineR07, emptyRecord 2)"
    apply (subst readSatellites.simps)
    apply (simp add: emptyRecord_def exFileGlonass_def getline_def substr_def exLineR05_def)
    apply (subst readSatellites.simps)
    apply (simp add: getline_def substr_def exLineR07_def)
    apply (subst readSatellites.simps)
    apply simp
    done
  ultimately show ?thesis by (simp add: exEpochNone_empty)
qed

subsection \<open>Evaluating the variants of the example\<close>

lemma ex_oscillating_delay:
  "lightTimeDelay exEnv exNavOscillating 0 3600 0 exApprox j = (if even j then 0.075 else 0.07)"
proof (induction j)
  case 0
  show ?case by simp
next
  case (Suc j)
  have more: "NavigationRecord.more exNavOscillating t =
              (if t \<le> 3599.9275 then (0, 0, 27342224.06) else (0, 0, 28841186.35))" for t
    by (simp add: exNavOscillating_def)
  show ?case
    by (simp only: lightTimeDelay.simps Suc) (simp add: exEnv_simps more exApprox_def)
qed

lemma ex_oscillating_never_settled:
  "\<not> timeSettled exEnv exNavOscillating 0 3600 0 exApprox j"
proof (cases j)
  case 0
  thus ?thesis
    by (simp add: timeSettled_def transmissionTime_def previousTime_def ITER_TOL_def)
next
  case (Suc i)
  thus ?thesis
    by (simp add: timeSettled_def transmissionTime_def previousTime_def ITER_TOL_def
        ex_oscillating_delay del: lightTimeDelay.simps)
qed



lemmas ex3_eval = processSat_def vector_at_def exEpochThree_def exEpoch_def exNavigation_def exApprox_def
      ex_lightTime Let_def CUTOFF_ELEVATION_def BLUNDER_PICKER_def exEnv_simps exNav_simps exToc_def power_divide

lemma ex3_sat0:
  "processSat exEnv exEpochThree exNavigation exApprox exApprox 0 0 =
     Accepted [- (2 / 3), - (1 / 3), - (2 / 3), 1] 0 (4 / 9)"
proof -
  have "\<not> arcsin (2 / 3) \<le> 10 / 180 * pi" by (rule arcsin_above_cutoff) simp_all
  thus ?thesis by (simp add: ex3_eval)
qed

lemma ex3_sat1:
  "processSat exEnv exEpochThree exNavigation exApprox exApprox 0 1 =
     Accepted [2 / 3, 1 / 3, - (2 / 3), 1] 0 (4 / 9)"
proof -
  have "\<not> arcsin (2 / 3) \<le> 10 / 180 * pi" by (rule arcsin_above_cutoff) simp_all
  thus ?thesis by (simp add: ex3_eval)
qed

lemma ex3_sat2:
  "processSat exEnv exEpochThree exNavigation exApprox exApprox 0 2 = Accepted [0, 0, - 1, 1] 0 1"
  by (simp add: ex3_eval)

lemma ex3_len: "length (listSatPRN exEpochThree) = 3"
  by (simp add: exEpochThree_def)

lemma ex3_assemble:
  "assemble exEnv exEpochThree exNavigation exApprox exApprox 0 =
     Inr (Some \<lparr>designMat = [[- (2 / 3), - (1 / 3), - (2 / 3), 1], [2 / 3, 1 / 3, - (2 / 3), 1],
                             [0, 0, - 1, 1]],
                 observableVec = [0, 0, 0], weightVec = [4 / 9, 4 / 9, 1], countDisposed = 0\<rparr>)"
  unfolding assemble_def ex3_len
  by (simp add: satLoop.simps ex3_len ex3_sat0 ex3_sat1 ex3_sat2 initialState_def exEnv_simps
        upt_rec compact_def del: One_nat_def)
     (simp add: list_update_Cons_numeral)

lemma ex3_accepted:
  "acceptedUpTo exEnv exEpochThree exNavigation exApprox exApprox 0 3 =
     [Accepted [- (2 / 3), - (1 / 3), - (2 / 3), 1] 0 (4 / 9),
      Accepted [2 / 3, 1 / 3, - (2 / 3), 1] 0 (4 / 9), Accepted [0, 0, - 1, 1] 0 1]"
proof -
  have "[0..<3] = [0, 1, 2]" by (simp add: upt_rec)
  thus ?thesis
    unfolding acceptedUpTo_def by (simp add: ex3_sat0 ex3_sat1 ex3_sat2 del: One_nat_def)
qed

lemma exEnvDrift_simps:
  "Reference_c exEnvDrift = 299792458" "PI exEnvDrift = pi" "EPS exEnvDrift = 1 / 10 ^ 10"
  "Coordinates exEnvDrift v = v" "toXYZ exEnvDrift v = v" "toNEU exEnvDrift s ref = vminus s ref"
  "GpsWeekSecond_second exEnvDrift t = of_int (hour t * 3600 + minute t * 60 + second t)"
  "computeSatellitePosition exEnvDrift nav t' = NavigationRecord.more nav t'"
  "uninitialized exEnvDrift i j = 0"
  "inverse_Eigen exEnvDrift N i j = (if i = 2 \<and> j = 3 then 1 / (4 * 10 ^ 6) else 0)"
  by (simp_all add: exEnvDrift_def exEnv_def)

lemma exDrift_lightTime:
  "lightTime exEnvDrift (exNav b P) 0 3600 0 rc 0 0 (3 / 40) =
     Some (P, 3600 - vnorm (vminus P rc) / 299792458)"
proof -
  have "lightTime exEnvDrift (exNav b P) 0 3600 0 rc 0 0 0.075 =
        Some (rotationCorrection 0 P,
              3600 - 0 - vnorm (vminus (rotationCorrection 0 P) rc) / Reference_c exEnvDrift)"
    by (rule lightTime_static) (simp_all add: exEnvDrift_simps exNav_simps ITER_TOL_def)
  moreover have "rotationCorrection 0 P = P" by (cases P) simp
  moreover have "(0.075::real) = 3 / 40" by simp
  ultimately show ?thesis by (simp add: exEnvDrift_simps)
qed

lemma exDrift_sat:
  assumes "1000 \<le> \<beta>" "\<beta> \<le> 2000" "i < 4"
  shows "processSat exEnvDrift exEpochZenith exNavigationZenith exApprox (0, 0, 6355752 + \<beta>) 0 i =
         Accepted [0, 0, - 1, 1] \<beta> 1"
proof -
  have p: "pseudorange_C1C exEpochZenith ! i = 21001000" "i < length (pseudorange_C1C exEpochZenith)"
    "i < length (listSatPRN exEpochZenith)"
    using assms(3) by (auto simp: exEpochZenith_def less_Suc_eq numeral_eq_Suc)
  have rho: "vnorm (vminus (0, 0, 6355752 + \<beta>) (0, 0, 27356752)) = 21001000 - \<beta>"
    using assms by (simp add: vnorm_z del: vnorm.simps)
  have t: "receiverTime exEpochZenith = receiverTime exEpoch" by (simp add: exEpochZenith_def)
  have q: "(\<beta> - 21001000) / (21001000 - \<beta>) = - 1"
    using assms(2) by (simp add: divide_eq_minus_1_iff)
  show ?thesis
    using assms(1,2) p rho q
    by (simp add: vnorm_z processSat_def vector_at_def exNavigationZenith_def exDrift_lightTime Let_def
        CUTOFF_ELEVATION_def BLUNDER_PICKER_def exEnvDrift_simps exNav_simps exToc_def exApprox_def
        t exEpoch_def del: vnorm.simps)
qed

lemma exDrift_outerPass:
  assumes "1000 \<le> \<beta>" "\<beta> \<le> 2000"
  shows "outerPass exEnvDrift exEpochZenith exNavigationZenith exApprox (0, 0, 6355752 + \<beta>) 0 =
         Inr (Some ((0, 0, 6355752 + \<beta> + \<beta> / 10 ^ 6), 0, [0, 0, \<beta> / 10 ^ 6, 0]))"
proof -
  note sat = exDrift_sat[OF assms]
  have len: "length (listSatPRN exEpochZenith) = 4" by (simp add: exEpochZenith_def)
  have loop: "satLoop exEnvDrift exEpochZenith exNavigationZenith exApprox (0, 0, 6355752 + \<beta>) 0 0
                (initialState exEnvDrift 4) =
              Inr (Some \<lparr>designMat = [[0, 0, - 1, 1], [0, 0, - 1, 1], [0, 0, - 1, 1], [0, 0, - 1, 1]],
                          observableVec = [\<beta>, \<beta>, \<beta>, \<beta>], weightVec = [1, 1, 1, 1],
                          countDisposed = 0\<rparr>)"
    by (simp add: satLoop.simps len sat initialState_def exEnvDrift_simps upt_rec del: One_nat_def)
       (simp add: list_update_Cons_numeral)
  have asm: "assemble exEnvDrift exEpochZenith exNavigationZenith exApprox (0, 0, 6355752 + \<beta>) 0 =
              Inr (Some \<lparr>designMat = [[0, 0, - 1, 1], [0, 0, - 1, 1], [0, 0, - 1, 1], [0, 0, - 1, 1]],
                          observableVec = [\<beta>, \<beta>, \<beta>, \<beta>], weightVec = [1, 1, 1, 1],
                          countDisposed = 0\<rparr>)"
    by (simp add: assemble_def len loop compact_def)
  have sol: "solveNormal exEnvDrift [[0, 0, - 1, 1], [0, 0, - 1, 1], [0, 0, - 1, 1], [0, 0, - 1, 1]]
               [1, 1, 1, 1] [\<beta>, \<beta>, \<beta>, \<beta>] = [0, 0, \<beta> / 10 ^ 6, 0]"
    by (simp add: solveNormal_def Let_def mmul_def transposeN_def asDiagonal_def matvec_def dot_def
        exEnvDrift_simps upt_rec)
  show ?thesis
    unfolding outerPass_def asm by (simp add: sol Let_def exEnvDrift_simps)
qed

lemma exDrift_outerIterate:
  "k \<le> 100 \<Longrightarrow>
   \<exists>\<beta>. outerIterate exEnvDrift exEpochZenith exNavigationZenith exApprox k
         = Some ((0, 0, 6355752 + \<beta>), 0) \<and> 1000 \<le> \<beta> \<and> \<beta> \<le> 1000 + real k / 100"
proof (induction k)
  case 0
  show ?case by (intro exI[of _ 1000]) (simp add: exEnvDrift_simps exApprox_def)
next
  case (Suc k)
  then obtain \<beta> where it: "outerIterate exEnvDrift exEpochZenith exNavigationZenith exApprox k
         = Some ((0, 0, 6355752 + \<beta>), 0)" and b: "1000 \<le> \<beta>" "\<beta> \<le> 1000 + real k / 100"
    by auto
  have b2: "\<beta> \<le> 2000" using b(2) Suc.prems by simp
  have nc: "\<not> vnorm (0, 0, \<beta> / 10 ^ 6) < ITER_TOL"
    using b(1) by (simp add: vnorm_z ITER_TOL_def del: vnorm.simps)
  have "outerIterate exEnvDrift exEpochZenith exNavigationZenith exApprox (Suc k)
         = Some ((0, 0, 6355752 + (\<beta> + \<beta> / 10 ^ 6)), 0)"
    using nc by (simp add: it exDrift_outerPass[OF b(1) b2] add.assoc del: vnorm.simps)
  moreover have "1000 \<le> \<beta> + \<beta> / 10 ^ 6" using b(1) by simp
  moreover have "\<beta> + \<beta> / 10 ^ 6 \<le> 1000 + real (Suc k) / 100"
  proof -
    have "\<beta> / 10 ^ 6 \<le> 1 / 100" using b2 by simp
    moreover have "real (Suc k) / 100 = real k / 100 + 1 / 100" by (simp add: add_divide_distrib)
    ultimately show ?thesis using b(2) by linarith
  qed
  ultimately show ?case by blast
qed

lemma exDrift_never_converges:
  "outerIterate exEnvDrift exEpochZenith exNavigationZenith exApprox 100 \<noteq> None"
  using exDrift_outerIterate[of 100] by auto

section \<open>The claims\<close>

text \<open>
  Claim C1. The return for too few observations (line 165) stands inside the test
  \<open>countDisposed > 0\<close> (line 163), so a pass that disposed no satellite does not reach it.
  An observation file whose epoch declares two satellites, both GLONASS, is read into the
  record \<open>exEpochNone\<close>, which has no satellite; for it \<open>computeReceiverPosition\<close> returns
  coordinates, those of the approximate position: the products of line 178 have no term, the
  solution is the zero vector and the tolerance is met. For the epoch with three satellites,
  all three accepted, the pass does not return at line 165 either: its three rows are handed
  to the solve of line 178. (The normal matrix of three rows is singular; what the call
  returns after that solve is not stated here.)
\<close>

theorem fewer_than_four_satellites_not_rejected:
  "readRecord exAtoi exAtof exFileGlonass exHeaderLine =
     Inr (\<lparr>pending = [], finalNewline = True, good = True\<rparr>, exLineR07, exEpochNone) \<and>
   length (listSatPRN exEpochNone) = 0 \<and>
   computeReceiverPosition exEnv exEpochNone exNavigation exApprox = Inr (Some exApprox) \<and>
   length (listSatPRN exEpochThree) = 3 \<and>
   length (acceptedUpTo exEnv exEpochThree exNavigation exApprox exApprox 0 3) = 3 \<and>
   assemble exEnv exEpochThree exNavigation exApprox exApprox 0 =
     Inr (Some \<lparr>designMat = [[- (2 / 3), - (1 / 3), - (2 / 3), 1], [2 / 3, 1 / 3, - (2 / 3), 1],
                             [0, 0, - 1, 1]],
                 observableVec = [0, 0, 0], weightVec = [4 / 9, 4 / 9, 1], countDisposed = 0\<rparr>)"
  using no_satellites_result[of exEpochNone exEnv exNavigation exApprox]
  by (simp add: ex_readRecord_glonass ex3_len ex3_accepted ex3_assemble exEpochNone_def exEnv_simps)

text \<open>
  Claim C2. When the lists of the epoch have the same length and some satellite with a
  usable pseudorange has no navigation record at the receiver time, every outer pass returns
  null at that satellite (if not earlier) and \<open>computeReceiverPosition\<close> returns null,
  whatever records the other satellites have.
\<close>

theorem missing_ephemeris_fails_epoch:
  assumes "length (pseudorange_C1C r) = length (listSatPRN r)"
    and "satIndex < length (listSatPRN r)"
    and "\<not> pseudorange_C1C r ! satIndex < EPS e"
    and "navigationData (receiverTime r) (listSatPRN r ! satIndex) = None"
  shows "computeReceiverPosition e r navigationData approxRecCoord = Inr None \<and>
         (\<forall>itrAdjust recCoord recClockError.
            processSat e r navigationData approxRecCoord recCoord recClockError satIndex = ReturnNull \<and>
            outerPass e r navigationData approxRecCoord recCoord recClockError = Inr None \<and>
            adjustLoop e r navigationData approxRecCoord itrAdjust recCoord recClockError = Inr None)"
proof -
  have null: "processSat e r navigationData approxRecCoord rc clk satIndex = ReturnNull" for rc clk
    using assms by (simp add: processSat_def vector_at_def)
  have pass: "outerPass e r navigationData approxRecCoord rc clk = Inr None" for rc clk
    using assms(1) by (intro outerPass_ReturnNull[OF assms(2) null]) simp
  have loop: "adjustLoop e r navigationData approxRecCoord itr rc clk = Inr None" for itr rc clk
    by (rule adjustLoop_pass_fails[OF pass])
  show ?thesis
    using null pass loop by (simp add: computeReceiverPosition_def)
qed

theorem missing_ephemeris_fails_epoch_witness:
  "length (pseudorange_C1C exEpochG03) = length (listSatPRN exEpochG03) \<and>
   2 < length (listSatPRN exEpochG03) \<and>
   \<not> pseudorange_C1C exEpochG03 ! 2 < EPS exEnv \<and>
   exNavigation (receiverTime exEpochG03) (listSatPRN exEpochG03 ! 2) = None \<and>
   exNavigation (receiverTime exEpochG03) (listSatPRN exEpochG03 ! 0) \<noteq> None \<and>
   exNavigation (receiverTime exEpochG03) (listSatPRN exEpochG03 ! 1) \<noteq> None \<and>
   exNavigation (receiverTime exEpochG03) (listSatPRN exEpochG03 ! 3) \<noteq> None \<and>
   exNavigation (receiverTime exEpochG03) (listSatPRN exEpochG03 ! 4) \<noteq> None \<and>
   exNavigation (receiverTime exEpochG03) (listSatPRN exEpochG03 ! 5) \<noteq> None \<and>
   exNavigation (receiverTime exEpochG03) (listSatPRN exEpochG03 ! 6) \<noteq> None \<and>
   computeReceiverPosition exEnv exEpochG03 exNavigation exApprox = Inr None"
proof -
  have 1: "length (pseudorange_C1C exEpochG03) = length (listSatPRN exEpochG03)"
    and 2: "2 < length (listSatPRN exEpochG03)"
    and 3: "\<not> pseudorange_C1C exEpochG03 ! 2 < EPS exEnv"
    and 4: "exNavigation (receiverTime exEpochG03) (listSatPRN exEpochG03 ! 2) = None"
    by (simp_all add: exEpochG03_def exEpoch_def exEnv_simps exNavigation_def)
  have 5: "exNavigation (receiverTime exEpochG03) (listSatPRN exEpochG03 ! 0) \<noteq> None"
    "exNavigation (receiverTime exEpochG03) (listSatPRN exEpochG03 ! 1) \<noteq> None"
    "exNavigation (receiverTime exEpochG03) (listSatPRN exEpochG03 ! 3) \<noteq> None"
    "exNavigation (receiverTime exEpochG03) (listSatPRN exEpochG03 ! 4) \<noteq> None"
    "exNavigation (receiverTime exEpochG03) (listSatPRN exEpochG03 ! 5) \<noteq> None"
    "exNavigation (receiverTime exEpochG03) (listSatPRN exEpochG03 ! 6) \<noteq> None"
    by (simp_all add: exEpochG03_def exEpoch_def exNavigation_def)
  show ?thesis
    using 1 2 3 4 5
      missing_ephemeris_fails_epoch[where navigationData = exNavigation and r = exEpochG03
        and e = exEnv and satIndex = 2 and approxRecCoord = exApprox, OF 1 2 3 4]
    by simp
qed

text \<open>
  Claim C3. If 100 outer passes are made without the norm of the position correction
  falling below \<open>1E-8\<close>, or if in some pass the inner iteration of a satellite with a usable
  pseudorange and a navigation record does not meet its tolerance in any of its 100
  iterations, then \<open>computeReceiverPosition\<close> returns null, not an estimate.
\<close>

theorem iteration_caps_fail:
  assumes "length (pseudorange_C1C r) = length (listSatPRN r)"
    and "outerIterate e r navigationData approxRecCoord 100 \<noteq> None \<or>
         (\<exists>k<100. \<exists>recCoord recClockError satIndex closeRecord.
            outerIterate e r navigationData approxRecCoord k = Some (recCoord, recClockError) \<and>
            satIndex < length (listSatPRN r) \<and>
            \<not> pseudorange_C1C r ! satIndex < EPS e \<and>
            navigationData (receiverTime r) (listSatPRN r ! satIndex) = Some closeRecord \<and>
            (\<forall>j<100. \<not> timeSettled e closeRecord
                         (OmegaDOT closeRecord * (pseudorange_C1C r ! satIndex / Reference_c e))
                         (GpsWeekSecond_second e (receiverTime r)) recClockError recCoord j))"
  shows "computeReceiverPosition e r navigationData approxRecCoord = Inr None"
  using assms(2)
proof
  assume "outerIterate e r navigationData approxRecCoord 100 \<noteq> None"
  then obtain rc clk where "outerIterate e r navigationData approxRecCoord 100 = Some (rc, clk)"
    by (cases "outerIterate e r navigationData approxRecCoord 100") auto
  hence "computeReceiverPosition e r navigationData approxRecCoord =
         adjustLoop e r navigationData approxRecCoord 100 rc clk"
    by (rule adjustLoop_outerIterate) simp
  thus ?thesis by (simp add: adjustLoop.simps[of _ _ _ _ 100 rc clk])
next
  assume "\<exists>k<100. \<exists>recCoord recClockError satIndex closeRecord.
            outerIterate e r navigationData approxRecCoord k = Some (recCoord, recClockError) \<and>
            satIndex < length (listSatPRN r) \<and>
            \<not> pseudorange_C1C r ! satIndex < EPS e \<and>
            navigationData (receiverTime r) (listSatPRN r ! satIndex) = Some closeRecord \<and>
            (\<forall>j<100. \<not> timeSettled e closeRecord
                         (OmegaDOT closeRecord * (pseudorange_C1C r ! satIndex / Reference_c e))
                         (GpsWeekSecond_second e (receiverTime r)) recClockError recCoord j)"
  then obtain k rc clk satIndex closeRecord where
    k: "k < 100" and it: "outerIterate e r navigationData approxRecCoord k = Some (rc, clk)"
    and i: "satIndex < length (listSatPRN r)"
    and p: "\<not> pseudorange_C1C r ! satIndex < EPS e"
    and nav: "navigationData (receiverTime r) (listSatPRN r ! satIndex) = Some closeRecord"
    and ns: "\<And>j. j < 100 \<Longrightarrow> \<not> timeSettled e closeRecord
                         (OmegaDOT closeRecord * (pseudorange_C1C r ! satIndex / Reference_c e))
                         (GpsWeekSecond_second e (receiverTime r)) clk rc j"
    by blast
  have i': "satIndex < length (pseudorange_C1C r)" using i assms(1) by simp
  have "lightTime e closeRecord (OmegaDOT closeRecord * (pseudorange_C1C r ! satIndex / Reference_c e))
           (GpsWeekSecond_second e (receiverTime r)) clk rc 0 0 0.075 = None"
    unfolding lightTime_start using ns by (intro lightTime_never_settled) simp
  hence "processSat e r navigationData approxRecCoord rc clk satIndex = ReturnNull"
    by (rule processSat_lightTime_None[where nd = navigationData, OF i i' p nav])
  hence "outerPass e r navigationData approxRecCoord rc clk = Inr None"
    using assms(1) by (intro outerPass_ReturnNull[OF i]) simp_all
  hence "adjustLoop e r navigationData approxRecCoord k rc clk = Inr None"
    by (rule adjustLoop_pass_fails)
  moreover have "computeReceiverPosition e r navigationData approxRecCoord =
         adjustLoop e r navigationData approxRecCoord k rc clk"
    using it k by (intro adjustLoop_outerIterate) simp_all
  ultimately show ?thesis by simp
qed

theorem iteration_caps_fail_witness:
  "length (pseudorange_C1C exEpochG08) = length (listSatPRN exEpochG08) \<and>
   outerIterate exEnv exEpochG08 exNavigationG08 exApprox 0 = Some (exApprox, 0) \<and>
   0 < length (listSatPRN exEpochG08) \<and>
   \<not> pseudorange_C1C exEpochG08 ! 0 < EPS exEnv \<and>
   exNavigationG08 (receiverTime exEpochG08) (listSatPRN exEpochG08 ! 0) = Some exNavOscillating \<and>
   (\<forall>j. \<not> timeSettled exEnv exNavOscillating
                (OmegaDOT exNavOscillating * (pseudorange_C1C exEpochG08 ! 0 / Reference_c exEnv))
                (GpsWeekSecond_second exEnv (receiverTime exEpochG08)) 0 exApprox j) \<and>
   computeReceiverPosition exEnv exEpochG08 exNavigationG08 exApprox = Inr None \<and>
   length (pseudorange_C1C exEpochZenith) = length (listSatPRN exEpochZenith) \<and>
   outerIterate exEnvDrift exEpochZenith exNavigationZenith exApprox 100 \<noteq> None \<and>
   computeReceiverPosition exEnvDrift exEpochZenith exNavigationZenith exApprox = Inr None"
proof -
  have 1: "length (pseudorange_C1C exEpochG08) = length (listSatPRN exEpochG08)"
    by (simp add: exEpochG08_def)
  have 2: "outerIterate exEnv exEpochG08 exNavigationG08 exApprox 0 = Some (exApprox, 0)"
    by (simp add: exEnv_simps)
  have 3: "0 < length (listSatPRN exEpochG08)" "\<not> pseudorange_C1C exEpochG08 ! 0 < EPS exEnv"
    "exNavigationG08 (receiverTime exEpochG08) (listSatPRN exEpochG08 ! 0) = Some exNavOscillating"
    by (simp_all add: exEpochG08_def exEnv_simps exNavigationG08_def)
  have 4: "\<forall>j. \<not> timeSettled exEnv exNavOscillating
                (OmegaDOT exNavOscillating * (pseudorange_C1C exEpochG08 ! 0 / Reference_c exEnv))
                (GpsWeekSecond_second exEnv (receiverTime exEpochG08)) 0 exApprox j"
    using ex_oscillating_never_settled
    by (simp add: exNavOscillating_def exEpochG08_def exEpoch_def exEnv_simps)
  have "outerIterate exEnv exEpochG08 exNavigationG08 exApprox 100 \<noteq> None \<or>
         (\<exists>k<100. \<exists>recCoord recClockError satIndex closeRecord.
            outerIterate exEnv exEpochG08 exNavigationG08 exApprox k = Some (recCoord, recClockError) \<and>
            satIndex < length (listSatPRN exEpochG08) \<and>
            \<not> pseudorange_C1C exEpochG08 ! satIndex < EPS exEnv \<and>
            exNavigationG08 (receiverTime exEpochG08) (listSatPRN exEpochG08 ! satIndex) = Some closeRecord \<and>
            (\<forall>j<100. \<not> timeSettled exEnv closeRecord
                         (OmegaDOT closeRecord * (pseudorange_C1C exEpochG08 ! satIndex / Reference_c exEnv))
                         (GpsWeekSecond_second exEnv (receiverTime exEpochG08)) recClockError recCoord j))"
    using 2 3 4 by (intro disjI2 exI[of _ 0] exI[of _ exApprox] exI[of _ exNavOscillating] conjI) simp_all
  note inner = iteration_caps_fail[OF 1 this]
  have 5: "length (pseudorange_C1C exEpochZenith) = length (listSatPRN exEpochZenith)"
    by (simp add: exEpochZenith_def)
  have 6: "outerIterate exEnvDrift exEpochZenith exNavigationZenith exApprox 100 \<noteq> None"
    by (rule exDrift_never_converges)
  note outer = iteration_caps_fail[OF 5 disjI1, OF 6]
  from inner outer 1 2 3 4 5 6 show ?thesis by simp
qed

text \<open>
  Claim C4. In every outer pass (any current estimate \<open>recCoord\<close> and clock error), a
  satellite whose elevation, the arc sine of the up component over the norm of its corrected
  position converted to the North-East-Up frame of the input coordinate \<open>approxRecCoord\<close>, is
  at most \<open>10 / 180 * PI\<close> is disposed: the loop goes on with the three buffers unchanged
  and only \<open>countDisposed\<close> incremented, whatever the pseudorange is.
\<close>

theorem low_elevation_contributes_no_row:
  assumes "satIndex < length (listSatPRN r)" and "satIndex < length (pseudorange_C1C r)"
    and "navigationData (receiverTime r) (listSatPRN r ! satIndex) = Some closeRecord"
    and "lightTime e closeRecord (OmegaDOT closeRecord * (pseudorange_C1C r ! satIndex / Reference_c e))
           (GpsWeekSecond_second e (receiverTime r)) recClockError recCoord 0 0 0.075
         = Some (satCoord, satTimeF)"
    and "satCoordNEU = toNEU e (Coordinates e satCoord) approxRecCoord"
    and "arcsin (vZ satCoordNEU / vnorm satCoordNEU) \<le> 10 / 180 * PI e"
  shows "processSat e r navigationData approxRecCoord recCoord recClockError satIndex = Disposed \<and>
         satLoop e r navigationData approxRecCoord recCoord recClockError satIndex s =
           satLoop e r navigationData approxRecCoord recCoord recClockError (satIndex + 1)
             (s\<lparr>countDisposed := countDisposed s + 1\<rparr>)"
proof -
  have d: "processSat e r navigationData approxRecCoord recCoord recClockError satIndex = Disposed"
    using assms by (simp add: processSat_def vector_at_def CUTOFF_ELEVATION_def Let_def)
  with assms(1) show ?thesis by (simp add: satLoop_Disposed)
qed

theorem low_elevation_contributes_no_row_witness:
  "6 < length (listSatPRN exEpoch) \<and> 6 < length (pseudorange_C1C exEpoch) \<and>
   exNavigation (receiverTime exEpoch) (listSatPRN exEpoch ! 6) = Some (exNav 0 (21000000, 0, 6356752)) \<and>
   lightTime exEnv (exNav 0 (21000000, 0, 6356752))
     (OmegaDOT (exNav 0 (21000000, 0, 6356752)) * (pseudorange_C1C exEpoch ! 6 / Reference_c exEnv))
     (GpsWeekSecond_second exEnv (receiverTime exEpoch)) 0 exApprox 0 0 0.075
     = Some ((21000000, 0, 6356752), 3600 - 21000000 / 299792458) \<and>
   toNEU exEnv (Coordinates exEnv (21000000, 0, 6356752)) exApprox = (21000000, 0, 0) \<and>
   arcsin (vZ (21000000, 0, 0) / vnorm (21000000, 0, 0)) \<le> 10 / 180 * PI exEnv \<and>
   processSat exEnv exEpoch exNavigation exApprox exApprox 0 6 = Disposed \<and>
   satLoop exEnv exEpoch exNavigation exApprox exApprox 0 6 (initialState exEnv 7) =
     satLoop exEnv exEpoch exNavigation exApprox exApprox 0 (6 + 1)
       ((initialState exEnv 7)\<lparr>countDisposed := countDisposed (initialState exEnv 7) + 1\<rparr>)"
proof -
  have 1: "6 < length (listSatPRN exEpoch)" "6 < length (pseudorange_C1C exEpoch)"
    by (simp_all add: exEpoch_def)
  have 2: "exNavigation (receiverTime exEpoch) (listSatPRN exEpoch ! 6) = Some (exNav 0 (21000000, 0, 6356752))"
    by (simp add: exEpoch_def exNavigation_def)
  have 3: "lightTime exEnv (exNav 0 (21000000, 0, 6356752))
     (OmegaDOT (exNav 0 (21000000, 0, 6356752)) * (pseudorange_C1C exEpoch ! 6 / Reference_c exEnv))
     (GpsWeekSecond_second exEnv (receiverTime exEpoch)) 0 exApprox 0 0 0.075
     = Some ((21000000, 0, 6356752), 3600 - 21000000 / 299792458)"
    by (simp add: exNav_simps exEnv_simps exEpoch_def ex_lightTime exApprox_def)
  have 4: "(21000000, 0, 0) = toNEU exEnv (Coordinates exEnv (21000000, 0, 6356752)) exApprox"
    by (simp add: exEnv_simps exApprox_def)
  have 5: "arcsin (vZ (21000000, 0, 0) / vnorm (21000000, 0, 0)) \<le> 10 / 180 * PI exEnv"
    by (simp add: exEnv_simps)
  show ?thesis
    using 1 2 3 4 5
      low_elevation_contributes_no_row[where navigationData = exNavigation and r = exEpoch
        and satIndex = 6 and e = exEnv and recCoord = exApprox and recClockError = 0
        and approxRecCoord = exApprox and s = "initialState exEnv 7", OF 1 2 3 4 5]
    by simp
qed

text \<open>
  Claim C5. A satellite whose geometric range from the current estimate differs from its
  pseudorange by more than \<open>0.5E6\<close> is disposed; and the design matrix, observation vector
  and weight vector that leave the compaction hold exactly the rows of the accepted
  satellites, in the order of their indices, from row 0 on.
\<close>

theorem blunder_excluded_and_rows_keep_order:
  "(satIndex < length (listSatPRN r) \<and> satIndex < length (pseudorange_C1C r) \<and>
    navigationData (receiverTime r) (listSatPRN r ! satIndex) = Some closeRecord \<and>
    lightTime e closeRecord (OmegaDOT closeRecord * (pseudorange_C1C r ! satIndex / Reference_c e))
      (GpsWeekSecond_second e (receiverTime r)) recClockError recCoord 0 0 0.075
      = Some (satCoord, satTimeF) \<and>
    \<bar>vnorm (vminus recCoord satCoord) - pseudorange_C1C r ! satIndex\<bar> > 500000 \<longrightarrow>
      processSat e r navigationData approxRecCoord recCoord recClockError satIndex = Disposed)
   \<and>
   (assemble e r navigationData approxRecCoord recCoord recClockError = Inr (Some s) \<longrightarrow>
      designMat s = map rowOf (acceptedUpTo e r navigationData approxRecCoord recCoord recClockError
                                 (length (listSatPRN r))) \<and>
      observableVec s = map obOf (acceptedUpTo e r navigationData approxRecCoord recCoord recClockError
                                    (length (listSatPRN r))) \<and>
      weightVec s = map wtOf (acceptedUpTo e r navigationData approxRecCoord recCoord recClockError
                                (length (listSatPRN r))))"
proof (intro conjI impI)
  assume "satIndex < length (listSatPRN r) \<and> satIndex < length (pseudorange_C1C r) \<and>
    navigationData (receiverTime r) (listSatPRN r ! satIndex) = Some closeRecord \<and>
    lightTime e closeRecord (OmegaDOT closeRecord * (pseudorange_C1C r ! satIndex / Reference_c e))
      (GpsWeekSecond_second e (receiverTime r)) recClockError recCoord 0 0 0.075
      = Some (satCoord, satTimeF) \<and>
    \<bar>vnorm (vminus recCoord satCoord) - pseudorange_C1C r ! satIndex\<bar> > 500000"
  thus "processSat e r navigationData approxRecCoord recCoord recClockError satIndex = Disposed"
    by (simp add: processSat_def vector_at_def BLUNDER_PICKER_def Let_def)
next
  assume a: "assemble e r navigationData approxRecCoord recCoord recClockError = Inr (Some s)"
  show "designMat s = map rowOf (acceptedUpTo e r navigationData approxRecCoord recCoord recClockError
                                 (length (listSatPRN r)))"
    by (rule assemble_accepted(1)[OF a])
  show "observableVec s = map obOf (acceptedUpTo e r navigationData approxRecCoord recCoord recClockError
                                    (length (listSatPRN r)))"
    by (rule assemble_accepted(2)[OF a])
  show "weightVec s = map wtOf (acceptedUpTo e r navigationData approxRecCoord recCoord recClockError
                                (length (listSatPRN r)))"
    by (rule assemble_accepted(3)[OF a])
qed

theorem blunder_excluded_and_rows_keep_order_witness:
  "\<bar>vnorm (vminus exApprox (0, 0, 27356752)) - pseudorange_C1C exEpoch ! 5\<bar> > 500000 \<and>
   processSat exEnv exEpoch exNavigation exApprox exApprox 0 5 = Disposed \<and>
   assemble exEnv exEpoch exNavigation exApprox exApprox 0 =
     Inr (Some \<lparr>designMat = [[- (1 / 3), - (2 / 3), - (2 / 3), 1], [- (2 / 3), - (1 / 3), - (2 / 3), 1],
                             [2 / 3, 1 / 3, - (2 / 3), 1], [0, 0, - 1, 1]],
                 observableVec = [299896229 / 500000, 0, 0, 0],
                 weightVec = [4 / 9, 4 / 9, 4 / 9, 1],
                 countDisposed = 3\<rparr>) \<and>
   map rowOf (acceptedUpTo exEnv exEpoch exNavigation exApprox exApprox 0 (length (listSatPRN exEpoch))) =
     [[- (1 / 3), - (2 / 3), - (2 / 3), 1], [- (2 / 3), - (1 / 3), - (2 / 3), 1],
      [2 / 3, 1 / 3, - (2 / 3), 1], [0, 0, - 1, 1]] \<and>
   map obOf (acceptedUpTo exEnv exEpoch exNavigation exApprox exApprox 0 (length (listSatPRN exEpoch))) =
     [299896229 / 500000, 0, 0, 0] \<and>
   map wtOf (acceptedUpTo exEnv exEpoch exNavigation exApprox exApprox 0 (length (listSatPRN exEpoch))) =
     [4 / 9, 4 / 9, 4 / 9, 1]"
proof -
  have 1: "5 < length (listSatPRN exEpoch) \<and> 5 < length (pseudorange_C1C exEpoch) \<and>
    exNavigation (receiverTime exEpoch) (listSatPRN exEpoch ! 5) = Some (exNav 0 (0, 0, 27356752)) \<and>
    lightTime exEnv (exNav 0 (0, 0, 27356752))
      (OmegaDOT (exNav 0 (0, 0, 27356752)) * (pseudorange_C1C exEpoch ! 5 / Reference_c exEnv))
      (GpsWeekSecond_second exEnv (receiverTime exEpoch)) 0 exApprox 0 0 0.075
      = Some ((0, 0, 27356752), 3600 - 21000000 / 299792458) \<and>
    \<bar>vnorm (vminus exApprox (0, 0, 27356752)) - pseudorange_C1C exEpoch ! 5\<bar> > 500000"
    by (simp add: exNav_simps exEnv_simps exEpoch_def exNavigation_def ex_lightTime exApprox_def)
  note t = blunder_excluded_and_rows_keep_order[where navigationData = exNavigation and r = exEpoch
        and satIndex = 5 and e = exEnv and recCoord = exApprox and recClockError = 0
        and approxRecCoord = exApprox and closeRecord = "exNav 0 (0, 0, 27356752)"
        and satCoord = "(0, 0, 27356752)" and satTimeF = "3600 - 21000000 / 299792458"
        and s = "\<lparr>designMat = [[- (1 / 3), - (2 / 3), - (2 / 3), 1], [- (2 / 3), - (1 / 3), - (2 / 3), 1],
                             [2 / 3, 1 / 3, - (2 / 3), 1], [0, 0, - 1, 1]],
                 observableVec = [299896229 / 500000, 0, 0, 0],
                 weightVec = [4 / 9, 4 / 9, 4 / 9, 1],
                 countDisposed = 3\<rparr>"]
  show ?thesis
    using 1 t ex_assemble by simp
qed





text \<open>
  Claim C8. In an outer iteration whose system was assembled, the solution is
  \<open>(A\<^sup>T W A)\<^sup>-\<^sup>1 A\<^sup>T W b\<close>; its first three components are added to the receiver
  estimate and its fourth component divided by the speed of light is the new clock error,
  in which the previous clock error does not occur; the loop returns or continues with
  these values.
\<close>

theorem solution_added_to_estimate_and_clock_replaced:
  assumes "itrAdjust < 100"
    and "assemble e r navigationData approxRecCoord recCoord recClockError = Inr (Some s)"
    and "A = designMat s" and "w = weightVec s" and "b = observableVec s" and "n = length w"
    and "Ninv = map (\<lambda>i. map (\<lambda>j. inverse_Eigen e
                   (mmul 4 (mmul n (transposeN 4 A) (asDiagonal w)) A) i j) [0..<4]) [0..<4]"
    and "solution = matvec (mmul n (mmul n Ninv (transposeN 4 A)) (asDiagonal w)) b"
    and "recCoord' = (vX recCoord + solution ! 0, vY recCoord + solution ! 1, vZ recCoord + solution ! 2)"
    and "recClockError' = solution ! 3 / Reference_c e"
  shows "outerPass e r navigationData approxRecCoord recCoord recClockError =
           Inr (Some (recCoord', recClockError', solution)) \<and>
         adjustLoop e r navigationData approxRecCoord itrAdjust recCoord recClockError =
           (if vnorm (solution ! 0, solution ! 1, solution ! 2) < ITER_TOL
            then Inr (Some (Coordinates e recCoord'))
            else adjustLoop e r navigationData approxRecCoord (itrAdjust + 1) recCoord' recClockError')"
proof -
  have sol: "solution = solveNormal e (designMat s) (weightVec s) (observableVec s)"
    using assms(3-8) by (simp add: solveNormal_def Let_def)
  have pass: "outerPass e r navigationData approxRecCoord recCoord recClockError =
           Inr (Some (recCoord', recClockError', solution))"
    using assms(2,9,10) sol by (simp add: outerPass_def Let_def)
  show ?thesis
    using assms(1) pass
    by (simp add: adjustLoop.simps[of _ _ _ _ itrAdjust recCoord recClockError])
qed

theorem solution_added_to_estimate_and_clock_replaced_witness:
  "assemble exEnv exEpoch exNavigation exApprox exApprox 0 =
     Inr (Some \<lparr>designMat = [[- (1 / 3), - (2 / 3), - (2 / 3), 1], [- (2 / 3), - (1 / 3), - (2 / 3), 1],
                             [2 / 3, 1 / 3, - (2 / 3), 1], [0, 0, - 1, 1]],
                 observableVec = [299896229 / 500000, 0, 0, 0],
                 weightVec = [4 / 9, 4 / 9, 4 / 9, 1],
                 countDisposed = 3\<rparr>) \<and>
   outerPass exEnv exEpoch exNavigation exApprox exApprox 0 =
     Inr (Some ((299896229 / 500000, - (299896229 / 250000), 6356752), 0,
                [299896229 / 500000, - (299896229 / 250000), 0, 0])) \<and>
   adjustLoop exEnv exEpoch exNavigation exApprox 0 exApprox 0 =
     adjustLoop exEnv exEpoch exNavigation exApprox (0 + 1)
       (299896229 / 500000, - (299896229 / 250000), 6356752) 0"
proof -
  let ?A = "[[- (1 / 3), - (2 / 3), - (2 / 3), 1], [- (2 / 3), - (1 / 3), - (2 / 3), 1],
             [2 / 3, 1 / 3, - (2 / 3), 1], [0, 0, - 1, 1 :: real]]"
  let ?w = "[4 / 9, 4 / 9, 4 / 9, 1 :: real]"
  let ?b = "[299896229 / 500000, 0, 0, 0 :: real]"
  let ?s = "\<lparr>designMat = ?A, observableVec = ?b, weightVec = ?w, countDisposed = 3\<rparr>"
  let ?sol = "[299896229 / 500000, - (299896229 / 250000), 0, 0 :: real]"
  have 1: "(0::nat) < 100" by simp
  have 2: "assemble exEnv exEpoch exNavigation exApprox exApprox 0 = Inr (Some ?s)"
    by (rule ex_assemble)
  have 3: "?A = designMat ?s" "?w = weightVec ?s" "?b = observableVec ?s" "4 = length ?w"
    by simp_all
  have 4: "?sol = matvec (mmul 4 (mmul 4
              (map (\<lambda>i. map (\<lambda>j. inverse_Eigen exEnv
                   (mmul 4 (mmul 4 (transposeN 4 ?A) (asDiagonal ?w)) ?A) i j) [0..<4]) [0..<4])
              (transposeN 4 ?A)) (asDiagonal ?w)) ?b"
    by (simp add: mmul_def transposeN_def asDiagonal_def matvec_def dot_def exEnv_def upt_rec)
  have 5: "(299896229 / 500000, - (299896229 / 250000), 6356752) =
           (vX exApprox + ?sol ! 0, vY exApprox + ?sol ! 1, vZ exApprox + ?sol ! 2)"
    by (simp add: exApprox_def)
  have 6: "0 = ?sol ! 3 / Reference_c exEnv" by simp
  have 7: "\<not> vnorm (?sol ! 0, ?sol ! 1, ?sol ! 2) < ITER_TOL"
    using vnorm_ge_first[of "?sol ! 0" "?sol ! 1" "?sol ! 2"]
    by (simp add: ITER_TOL_def del: vnorm.simps)
  show ?thesis
    using 2 7
      solution_added_to_estimate_and_clock_replaced[where navigationData = exNavigation
        and e = exEnv and r = exEpoch, OF 1 2 3 refl 4 5 6]
    by simp
qed

text \<open>
  Claim C9. When an epoch record has been read, its five per-satellite lists have the same
  length, every retained identifier starts with G, and at most the declared number of
  satellites is retained; when the input holds as many lines as declared, the retained
  identifiers are those of the lines that start with G, in order. The retained count can
  be less than the declared count.
\<close>

theorem epoch_record_sequences_parallel_gps_only:
  "(readRecord atoi atof file line = Inr (file', line', r) \<longrightarrow>
      length (pseudorange_C1C r) = length (listSatPRN r) \<and>
      length (pseudorange_C2P r) = length (listSatPRN r) \<and>
      length (phase_L1C r) = length (listSatPRN r) \<and>
      length (phase_L2P r) = length (listSatPRN r) \<and>
      list_all (\<lambda>prn. take 1 prn = ''G'') (listSatPRN r) \<and>
      int (length (listSatPRN r)) \<le> max 0 (sumSat r) \<and>
      (good file \<and> nat (sumSat r) \<le> length (pending file) \<longrightarrow>
         listSatPRN r = map (take 3) (filter (\<lambda>s. take 1 s = ''G'')
                                          (take (nat (sumSat r)) (pending file)))))
   \<and>
   (\<exists>file line file' line' r.
      readSatellites atof 0 file line (emptyRecord 2) = Inr (file', line', r) \<and>
      int (length (listSatPRN r)) < sumSat r)"
proof (intro conjI impI)
  assume a: "readRecord atoi atof file line = Inr (file', line', r)"
  then obtain r0 where rs: "readSatellites atof 0 file line r0 = Inr (file', line', r)"
    and r0: "listSatPRN r0 = []" "pseudorange_C1C r0 = []" "pseudorange_C2P r0 = []"
      "phase_L1C r0 = []" "phase_L2P r0 = []"
    by (auto simp: readRecord_def split: sum.splits)
  have inv: "parallel r \<and> onlyGPS r \<and> sumSat r = sumSat r0 \<and>
             int (length (listSatPRN r)) \<le> max 0 (sumSat r0)"
    using r0 by (intro readSatellites_invariant[OF rs]) (simp_all add: parallel_def onlyGPS_def)
  thus "length (pseudorange_C1C r) = length (listSatPRN r)"
    "length (pseudorange_C2P r) = length (listSatPRN r)"
    "length (phase_L1C r) = length (listSatPRN r)"
    "length (phase_L2P r) = length (listSatPRN r)"
    "list_all (\<lambda>prn. take 1 prn = ''G'') (listSatPRN r)"
    "int (length (listSatPRN r)) \<le> max 0 (sumSat r)"
    by (simp_all add: parallel_def onlyGPS_def)
  assume b: "good file \<and> nat (sumSat r) \<le> length (pending file)"
  have "listSatPRN r = listSatPRN r0 @
           map (take 3) (filter (\<lambda>s. take 1 s = ''G'') (take (nat (sumSat r0 - 0)) (pending file)))"
    using b inv by (intro readSatellites_retained[OF rs]) simp_all
  thus "listSatPRN r = map (take 3) (filter (\<lambda>s. take 1 s = ''G'')
                                          (take (nat (sumSat r)) (pending file)))"
    using r0 inv by simp
next
  show "\<exists>file line file' line' r.
      readSatellites atof 0 file line (emptyRecord 2) = Inr (file', line', r) \<and>
      int (length (listSatPRN r)) < sumSat r"
    using ex_readSatellites[of atof]
    by (intro exI[of _ exFile] exI[of _ exHeaderLine] exI conjI) (assumption, simp add: emptyRecord_def)
qed

theorem epoch_record_sequences_parallel_gps_only_witness:
  "readRecord exAtoi exAtof exFile exHeaderLine =
     Inr (\<lparr>pending = [], finalNewline = True, good = True\<rparr>, exLineR05,
          (emptyRecord 2)\<lparr>listSatPRN := [''G01''],
             pseudorange_C1C := [21000300], pseudorange_C2P := [21000305],
             phase_L1C := [110355000], phase_L2P := [85990000]\<rparr>) \<and>
   good exFile \<and> nat 2 \<le> length (pending exFile) \<and>
   map (take 3) (filter (\<lambda>s. take 1 s = ''G'') (take (nat 2) (pending exFile))) = [''G01''] \<and>
   int (length [''G01'']) < 2"
  using ex_readRecord
    epoch_record_sequences_parallel_gps_only[of exAtoi exAtof exFile exHeaderLine
      "\<lparr>pending = [], finalNewline = True, good = True\<rparr>" exLineR05
      "(emptyRecord 2)\<lparr>listSatPRN := [''G01''],
             pseudorange_C1C := [21000300], pseudorange_C2P := [21000305],
             phase_L1C := [110355000], phase_L2P := [85990000]\<rparr>"]
  by (simp add: exFile_def emptyRecord_def exLineG01_def exLineR05_def)

text \<open>
  Claim C10. A satellite whose first pseudorange is below \<open>EPS\<close> is disposed whatever the
  ephemeris lookup would return for it: the loop only increments \<open>countDisposed\<close>, and the
  result of \<open>computeReceiverPosition\<close> does not change when the lookup is changed at such
  satellites only, so a missing record for one of them is never fatal.
\<close>

theorem missing_pseudorange_skipped_before_lookup:
  "(satIndex < length (listSatPRN r) \<and> satIndex < length (pseudorange_C1C r) \<and>
    pseudorange_C1C r ! satIndex < EPS e \<longrightarrow>
      processSat e r navigationData approxRecCoord recCoord recClockError satIndex = Disposed \<and>
      satLoop e r navigationData approxRecCoord recCoord recClockError satIndex s =
        satLoop e r navigationData approxRecCoord recCoord recClockError (satIndex + 1)
          (s\<lparr>countDisposed := countDisposed s + 1\<rparr>))
   \<and>
   ((\<forall>i. i < length (listSatPRN r) \<and> i < length (pseudorange_C1C r) \<and>
         \<not> pseudorange_C1C r ! i < EPS e \<longrightarrow>
         navigationData (receiverTime r) (listSatPRN r ! i) =
         navigationData' (receiverTime r) (listSatPRN r ! i)) \<longrightarrow>
      computeReceiverPosition e r navigationData approxRecCoord =
      computeReceiverPosition e r navigationData' approxRecCoord)"
proof (intro conjI impI)
  assume h: "satIndex < length (listSatPRN r) \<and> satIndex < length (pseudorange_C1C r) \<and>
    pseudorange_C1C r ! satIndex < EPS e"
  thus d: "processSat e r navigationData approxRecCoord recCoord recClockError satIndex = Disposed"
    by (simp add: processSat_def vector_at_def)
  show "satLoop e r navigationData approxRecCoord recCoord recClockError satIndex s =
        satLoop e r navigationData approxRecCoord recCoord recClockError (satIndex + 1)
          (s\<lparr>countDisposed := countDisposed s + 1\<rparr>)"
    using h d by (intro satLoop_Disposed) simp_all
next
  assume h: "\<forall>i. i < length (listSatPRN r) \<and> i < length (pseudorange_C1C r) \<and>
         \<not> pseudorange_C1C r ! i < EPS e \<longrightarrow>
         navigationData (receiverTime r) (listSatPRN r ! i) =
         navigationData' (receiverTime r) (listSatPRN r ! i)"
  have "\<And>i rc clk. processSat e r navigationData approxRecCoord rc clk i =
                     processSat e r navigationData' approxRecCoord rc clk i"
    using h by (intro processSat_lookup_cong) blast
  thus "computeReceiverPosition e r navigationData approxRecCoord =
        computeReceiverPosition e r navigationData' approxRecCoord"
    unfolding computeReceiverPosition_def by (rule adjustLoop_lookup_cong)
qed

theorem missing_pseudorange_skipped_before_lookup_witness:
  "pseudorange_C1C exEpoch ! 2 < EPS exEnv \<and>
   exNavigation (receiverTime exEpoch) (listSatPRN exEpoch ! 2) = None \<and>
   exNavigationAll (receiverTime exEpoch) (listSatPRN exEpoch ! 2) \<noteq> None \<and>
   processSat exEnv exEpoch exNavigation exApprox exApprox 0 2 = Disposed \<and>
   satLoop exEnv exEpoch exNavigation exApprox exApprox 0 2 (initialState exEnv 7) =
     satLoop exEnv exEpoch exNavigation exApprox exApprox 0 3
       ((initialState exEnv 7)\<lparr>countDisposed := countDisposed (initialState exEnv 7) + 1\<rparr>) \<and>
   computeReceiverPosition exEnv exEpoch exNavigation exApprox =
   computeReceiverPosition exEnv exEpoch exNavigationAll exApprox"
proof -
  have a: "2 < length (listSatPRN exEpoch) \<and> 2 < length (pseudorange_C1C exEpoch) \<and>
           pseudorange_C1C exEpoch ! 2 < EPS exEnv"
    by (simp add: exEpoch_def exEnv_simps)
  have b: "\<forall>i. i < length (listSatPRN exEpoch) \<and> i < length (pseudorange_C1C exEpoch) \<and>
         \<not> pseudorange_C1C exEpoch ! i < EPS exEnv \<longrightarrow>
         exNavigation (receiverTime exEpoch) (listSatPRN exEpoch ! i) =
         exNavigationAll (receiverTime exEpoch) (listSatPRN exEpoch ! i)"
    using ex_usable_iff by (auto simp: ex_len exNavigationAll_def)
  have c: "exNavigation (receiverTime exEpoch) (listSatPRN exEpoch ! 2) = None"
    "exNavigationAll (receiverTime exEpoch) (listSatPRN exEpoch ! 2) \<noteq> None"
    by (simp_all add: exEpoch_def exNavigation_def exNavigationAll_def)
  show ?thesis
    using a b c
      missing_pseudorange_skipped_before_lookup[of 2 exEpoch exEnv exNavigation exApprox exApprox 0
        "initialState exEnv 7" exNavigationAll]
    by simp
qed


end
